theory Spec2Isabelle
  imports Main "HOL-Library.Sublist"
begin

section \<open>Data model of the C4 diagram engine\<close>

text \<open>
  The engine is the class \<open>C4Service\<close>. Its input is a list of requirements and the JSON
  document that the language model returns; its output is a list of diagrams, which it
  also writes to the project's directory.

  Strings are character lists. Fields that the TypeScript interfaces mark optional
  (\<open>protocol?\<close>) are options. The extracted architecture is the result of \<open>JSON.parse\<close>,
  so nothing guarantees that a field the interface declares is there: every object and
  every array that the builders dereference is an option too, \<open>None\<close> standing for a
  field the response does not have, and a dereference of \<open>None\<close> is the \<open>TypeError\<close> that
  JavaScript throws. A field that is present has the type its interface declares.

  Not modelled: the rendered text \<open>mermaidCode\<close> and the time stamp \<open>generatedAt\<close> of a
  diagram (the renderers are total string functions of the elements and relationships
  and never throw), the unused optional fields \<open>exposes\<close>, \<open>stores\<close> and \<open>nonFunctional\<close>
  of a container, and failures of the storage medium (a refused permission, a full disk,
  a file where a directory is expected): the directory of a project accepts every file
  whose name is a plain file name.
\<close>

datatype error = PromptNotFound | TypeError | SyntaxError | ReadError | WriteError

record Requirement =
  req_id :: string
  req_type :: string
  req_title :: string
  req_description :: string
  req_rationale :: "string option"

record ArchitecturePerson =
  person_id :: string
  person_name :: string
  person_role :: string
  person_description :: string
  person_interactions :: "string list"

record ArchitectureExternalSystem =
  ext_id :: string
  ext_name :: string
  ext_type :: string
  ext_description :: string
  ext_protocol :: "string option"
  ext_dataFormat :: "string option"

record ArchitectureContainer =
  cont_id :: string
  cont_name :: string
  cont_type :: string
  cont_technology :: string
  cont_description :: string
  cont_responsibilities :: "string list option"
  cont_dependencies :: "string list option"

record ArchitectureComponent =
  comp_id :: string
  comp_name :: string
  comp_type :: string
  comp_technology :: string
  comp_description :: string
  comp_capabilities :: "string list option"
  comp_dependencies :: "string list"

record ArchitectureRelationship =
  rel_from :: string
  rel_to :: string
  rel_label :: string
  rel_protocol :: "string option"
  rel_dataFlow :: "string option"
  rel_async :: "bool option"
  rel_pattern :: "string option"

record ArchitectureSystem =
  sys_name :: string
  sys_description :: string
  sys_scope :: string

record Level1Context =
  ctx_system :: "ArchitectureSystem option"
  ctx_people :: "ArchitecturePerson list option"
  ctx_external_systems :: "ArchitectureExternalSystem list option"
  ctx_relationships :: "ArchitectureRelationship list option"

text \<open>
  A JavaScript object used as a dictionary (\<open>{ [containerId: string]: ... }\<close>) is an
  association list: \<open>object_get\<close> is the property read \<open>obj[k]\<close> (the first binding of a
  key is the one the object holds) and \<open>object_keys\<close> is \<open>Object.keys(obj)\<close>, every key
  once, in the order of the list. Only the object's own properties are modelled: ids are
  taken not to be names that every object inherits (\<open>constructor\<close>, \<open>toString\<close>, ...),
  for which the property read of the source returns a function.
\<close>

type_synonym 'v js_object = "(string \<times> 'v) list"

definition object_get :: "'v js_object \<Rightarrow> string \<Rightarrow> 'v option" where
  "object_get obj k = map_of obj k"

definition object_keys :: "'v js_object \<Rightarrow> string list" where
  "object_keys obj = remdups (map fst obj)"

record ExtractedArchitecture =
  level1_context :: "Level1Context option"
  level2_containers :: "ArchitectureContainer list option"
  level2_relationships :: "ArchitectureRelationship list option"
  level3_components :: "ArchitectureComponent list js_object option"
  level3_relationships :: "ArchitectureRelationship list js_object option"

datatype element_type = PersonT | SystemT | ContainerT | ComponentT

record C4Element =
  elem_id :: string
  elem_type :: element_type
  elem_name :: string
  elem_description :: string
  elem_technology :: "string option"
  elem_requirements :: "string list"
  elem_children :: "string list option"

record C4Relationship =
  c4_from :: string
  c4_to :: string
  c4_label :: string
  c4_technology :: "string option"

datatype diagram_type = ContextD | ContainerD | ComponentD

record C4Diagram =
  diag_id :: string
  diag_level :: nat
  diag_type :: diagram_type
  diag_title :: string
  diag_description :: string
  diag_elements :: "C4Element list"
  diag_relationships :: "C4Relationship list"
  diag_requirementReferences :: "string list"
  diag_parentId :: "string option"

section \<open>Exceptions as values\<close>

definition bind_res :: "error + 'a \<Rightarrow> ('a \<Rightarrow> error + 'b) \<Rightarrow> error + 'b" where
  "bind_res m f = (case m of Inl e \<Rightarrow> Inl e | Inr x \<Rightarrow> f x)"

text \<open>Reading a property of a field: a \<open>TypeError\<close> when the field is \<open>undefined\<close>.\<close>

definition deref :: "'a option \<Rightarrow> error + 'a" where
  "deref v = (case v of None \<Rightarrow> Inl TypeError | Some x \<Rightarrow> Inr x)"

text \<open>\<open>xs.map(f)\<close> and \<open>xs.forEach(f)\<close> with a callback that may throw: the first
  exception ends the loop.\<close>

fun map_res :: "('a \<Rightarrow> error + 'b) \<Rightarrow> 'a list \<Rightarrow> error + 'b list" where
  "map_res f [] = Inr []"
| "map_res f (x # xs) =
     (case f x of
        Inl e \<Rightarrow> Inl e
      | Inr y \<Rightarrow> (case map_res f xs of Inl e \<Rightarrow> Inl e | Inr ys \<Rightarrow> Inr (y # ys)))"

section \<open>Strings\<close>

text \<open>
  \<open>String.prototype.toLowerCase\<close> is a function of the JavaScript library, not of the
  repository. Every function of the engine that lower-cases takes it as its first
  parameter \<open>toLowerCase\<close>, and what is proved of the engine holds for every such function.

  \<open>asciiToLowerCase\<close> lower-cases the letters \<open>A\<close> to \<open>Z\<close> and leaves every other character
  alone, which is what the library function does to a string of ASCII characters. It
  runs the sample inputs, which are ASCII.
\<close>

definition lower_char :: "char \<Rightarrow> char" where
  "lower_char c =
     (case map_of (zip ''ABCDEFGHIJKLMNOPQRSTUVWXYZ'' ''abcdefghijklmnopqrstuvwxyz'') c of
        None \<Rightarrow> c
      | Some d \<Rightarrow> d)"

definition asciiToLowerCase :: "string \<Rightarrow> string" where
  "asciiToLowerCase s = map lower_char s"

text \<open>\<open>s.includes(k)\<close>: \<open>k\<close> occurs in \<open>s\<close> as a contiguous substring. A character that
  does not fit one list element takes several (as in UTF-8); that leaves the test of
  one well-formed string in another as it is.\<close>

fun str_includes :: "string \<Rightarrow> string \<Rightarrow> bool" where
  "str_includes [] k = (k = [])"
| "str_includes (c # s) k = (prefix k (c # s) \<or> str_includes s k)"

text \<open>\<open>a || b\<close> on optional strings: the empty string is falsy as \<open>undefined\<close> is.\<close>

definition js_or :: "string option \<Rightarrow> string option \<Rightarrow> string option" where
  "js_or a b = (case a of None \<Rightarrow> b | Some s \<Rightarrow> if s = [] then b else Some s)"

section \<open>The traceability heuristic\<close>

text \<open>
  The callback of \<open>requirements.filter\<close> in both builders: some keyword (a responsibility
  of the container, a capability of the component) occurs, lower-cased, in the
  lower-cased title or description of the requirement.
\<close>

definition matchesKeyword :: "(string \<Rightarrow> string) \<Rightarrow> Requirement \<Rightarrow> string \<Rightarrow> bool" where
  "matchesKeyword toLowerCase r k =
     (str_includes (toLowerCase (req_title r)) (toLowerCase k) \<or>
      str_includes (toLowerCase (req_description r)) (toLowerCase k))"

definition matchesSome :: "(string \<Rightarrow> string) \<Rightarrow> string list \<Rightarrow> Requirement \<Rightarrow> bool" where
  "matchesSome toLowerCase keywords r = list_ex (matchesKeyword toLowerCase r) keywords"

text \<open>
  \<open>requirements.filter(r => keywords.some(...)).map(r => r.id)\<close>. The keyword array is
  read inside the callback, so a missing array throws only when there is a requirement
  to test.
\<close>

definition traceRequirements :: "(string \<Rightarrow> string) \<Rightarrow> Requirement list \<Rightarrow> string list option \<Rightarrow> error + string list" where
  "traceRequirements toLowerCase requirements keywords =
     (case keywords of
        None \<Rightarrow> if requirements = [] then Inr [] else Inl TypeError
      | Some ks \<Rightarrow> Inr (map req_id (filter (matchesSome toLowerCase ks) requirements)))"

section \<open>The level builders\<close>

definition system_id :: string where
  "system_id = ''main-system''"

definition personElement :: "ArchitecturePerson \<Rightarrow> C4Element" where
  "personElement person =
     \<lparr>elem_id = person_id person, elem_type = PersonT, elem_name = person_name person,
      elem_description = person_role person @ '': '' @ person_description person,
      elem_technology = None, elem_requirements = [], elem_children = None\<rparr>"

definition externalElement :: "ArchitectureExternalSystem \<Rightarrow> C4Element" where
  "externalElement sys =
     \<lparr>elem_id = ext_id sys, elem_type = SystemT, elem_name = ext_name sys,
      elem_description = ext_description sys, elem_technology = ext_protocol sys,
      elem_requirements = [], elem_children = None\<rparr>"

definition level1Relationship :: "ArchitectureRelationship \<Rightarrow> C4Relationship" where
  "level1Relationship rel =
     \<lparr>c4_from = rel_from rel,
      c4_to = (if rel_to rel = ''system'' then system_id else rel_to rel),
      c4_label = rel_label rel, c4_technology = rel_protocol rel\<rparr>"

definition buildLevel1Diagram :: "ExtractedArchitecture \<Rightarrow> Requirement list \<Rightarrow> error + C4Diagram" where
  "buildLevel1Diagram arch requirements =
     bind_res (deref (level1_context arch)) (\<lambda>ctx.
     bind_res (deref (ctx_system ctx)) (\<lambda>sys.
     bind_res (deref (level2_containers arch)) (\<lambda>containers.
     bind_res (deref (ctx_people ctx)) (\<lambda>people.
     bind_res (deref (ctx_external_systems ctx)) (\<lambda>external_systems.
     bind_res (deref (ctx_relationships ctx)) (\<lambda>rels.
       Inr \<lparr>diag_id = ''level1-context'', diag_level = 1, diag_type = ContextD,
            diag_title = ''System Context Diagram'', diag_description = sys_scope sys,
            diag_elements =
              \<lparr>elem_id = system_id, elem_type = SystemT, elem_name = sys_name sys,
               elem_description = sys_description sys, elem_technology = None,
               elem_requirements = map req_id requirements,
               elem_children = Some (map cont_id containers)\<rparr>
              # map personElement people @ map externalElement external_systems,
            diag_relationships = map level1Relationship rels,
            diag_requirementReferences = map req_id requirements,
            diag_parentId = None\<rparr>))))))"

text \<open>
  The element of one container. \<open>arch.level3_components[container.id]?.map(c => c.id) || []\<close>
  reads a property of \<open>arch.level3_components\<close>, which throws when that object is
  missing; a container without an entry has the empty list of children.
\<close>

definition containerElement ::
  "(string \<Rightarrow> string) \<Rightarrow> ExtractedArchitecture \<Rightarrow> Requirement list \<Rightarrow> ArchitectureContainer \<Rightarrow> error + C4Element" where
  "containerElement toLowerCase arch requirements container =
     bind_res (traceRequirements toLowerCase requirements (cont_responsibilities container)) (\<lambda>reqs.
     bind_res (deref (level3_components arch)) (\<lambda>components.
       Inr \<lparr>elem_id = cont_id container, elem_type = ContainerT, elem_name = cont_name container,
            elem_description = cont_description container,
            elem_technology = Some (cont_technology container),
            elem_requirements = reqs,
            elem_children =
              Some (case object_get components (cont_id container) of
                      None \<Rightarrow> []
                    | Some cs \<Rightarrow> map comp_id cs)\<rparr>))"

definition isEndpoint :: "ArchitectureRelationship list \<Rightarrow> string \<Rightarrow> bool" where
  "isEndpoint rels i = list_ex (\<lambda>r. rel_from r = i \<or> rel_to r = i) rels"

definition level2Relationship :: "ArchitectureRelationship \<Rightarrow> C4Relationship" where
  "level2Relationship rel =
     \<lparr>c4_from = rel_from rel, c4_to = rel_to rel, c4_label = rel_label rel,
      c4_technology = js_or (rel_protocol rel) (rel_dataFlow rel)\<rparr>"

definition buildLevel2Diagrams :: "(string \<Rightarrow> string) \<Rightarrow> ExtractedArchitecture \<Rightarrow> Requirement list \<Rightarrow> error + C4Diagram list" where
  "buildLevel2Diagrams toLowerCase arch requirements =
     bind_res (deref (level2_containers arch)) (\<lambda>containers.
     bind_res (map_res (containerElement toLowerCase arch requirements) containers) (\<lambda>containerElements.
     bind_res (deref (level1_context arch)) (\<lambda>ctx.
     bind_res (deref (ctx_external_systems ctx)) (\<lambda>external_systems.
     bind_res (deref (level2_relationships arch)) (\<lambda>rels.
       Inr [\<lparr>diag_id = ''level2-containers'', diag_level = 2, diag_type = ContainerD,
             diag_title = ''Container Diagram'',
             diag_description = ''Deployable units and their interactions'',
             diag_elements =
               containerElements @
               map externalElement (filter (\<lambda>sys. isEndpoint rels (ext_id sys)) external_systems),
             diag_relationships = map level2Relationship rels,
             diag_requirementReferences = map req_id requirements,
             diag_parentId = Some ''main-system''\<rparr>])))))"

definition componentElement :: "(string \<Rightarrow> string) \<Rightarrow> Requirement list \<Rightarrow> ArchitectureComponent \<Rightarrow> error + C4Element" where
  "componentElement toLowerCase requirements component =
     bind_res (traceRequirements toLowerCase requirements (comp_capabilities component)) (\<lambda>reqs.
       Inr \<lparr>elem_id = comp_id component, elem_type = ComponentT,
            elem_name = comp_name component,
            elem_description = comp_description component,
            elem_technology = Some (comp_technology component),
            elem_requirements = reqs, elem_children = None\<rparr>)"

definition level3Relationship :: "ArchitectureRelationship \<Rightarrow> C4Relationship" where
  "level3Relationship rel =
     \<lparr>c4_from = rel_from rel, c4_to = rel_to rel, c4_label = rel_label rel,
      c4_technology = rel_pattern rel\<rparr>"

text \<open>The object literal that the loop of \<open>buildLevel3Diagrams\<close> pushes.\<close>

definition level3Diagram ::
  "string \<Rightarrow> ArchitectureContainer \<Rightarrow> C4Element list \<Rightarrow> C4Relationship list \<Rightarrow> Requirement list
     \<Rightarrow> C4Diagram" where
  "level3Diagram containerId container elements relationships requirements =
     \<lparr>diag_id = ''level3-'' @ containerId, diag_level = 3, diag_type = ComponentD,
      diag_title = ''Component Diagram - '' @ cont_name container,
      diag_description = ''Internal components of '' @ cont_name container,
      diag_elements = elements,
      diag_relationships = relationships,
      diag_requirementReferences =
        map req_id
          (filter (\<lambda>r. list_ex (\<lambda>e. req_id r \<in> set (elem_requirements e)) elements)
             requirements),
      diag_parentId = Some containerId\<rparr>"

text \<open>
  The body of the loop over \<open>Object.keys(arch.level3_components)\<close>: the diagrams it
  pushes for one key, none when it returns early. The containers and the relationship
  object are read only after the first early return.
\<close>

definition level3ForContainer ::
  "(string \<Rightarrow> string) \<Rightarrow> ExtractedArchitecture \<Rightarrow> Requirement list \<Rightarrow> ArchitectureComponent list js_object \<Rightarrow> string
     \<Rightarrow> error + C4Diagram list" where
  "level3ForContainer toLowerCase arch requirements comps containerId =
     (case object_get comps containerId of
        None \<Rightarrow> Inr []
      | Some components \<Rightarrow>
          if components = [] then Inr []
          else
            bind_res (deref (level2_containers arch)) (\<lambda>containers.
              case find (\<lambda>c. cont_id c = containerId) containers of
                None \<Rightarrow> Inr []
              | Some container \<Rightarrow>
                  bind_res (map_res (componentElement toLowerCase requirements) components) (\<lambda>elements.
                  bind_res (deref (level3_relationships arch)) (\<lambda>relsByContainer.
                    Inr [level3Diagram containerId container elements
                           (map level3Relationship
                              (case object_get relsByContainer containerId of
                                 None \<Rightarrow> []
                               | Some rs \<Rightarrow> rs))
                           requirements]))))"

definition buildLevel3Diagrams :: "(string \<Rightarrow> string) \<Rightarrow> ExtractedArchitecture \<Rightarrow> Requirement list \<Rightarrow> error + C4Diagram list" where
  "buildLevel3Diagrams toLowerCase arch requirements =
     bind_res (deref (level3_components arch)) (\<lambda>comps.
     bind_res (map_res (level3ForContainer toLowerCase arch requirements comps) (object_keys comps)) (\<lambda>pushed.
       Inr (concat pushed)))"

definition getFallbackArchitecture :: "Requirement list \<Rightarrow> ExtractedArchitecture" where
  "getFallbackArchitecture requirements =
     \<lparr>level1_context = Some
        \<lparr>ctx_system = Some
           \<lparr>sys_name = ''System'', sys_description = ''Main system based on requirements'',
            sys_scope = ''To be defined''\<rparr>,
         ctx_people = Some
           [\<lparr>person_id = ''user'', person_name = ''User'', person_role = ''End User'',
             person_description = ''Interacts with the system'',
             person_interactions = [''use system'']\<rparr>],
         ctx_external_systems = Some [],
         ctx_relationships = Some
           [\<lparr>rel_from = ''user'', rel_to = ''system'', rel_label = ''Uses'',
             rel_protocol = Some ''HTTPS'', rel_dataFlow = None, rel_async = None,
             rel_pattern = None\<rparr>]\<rparr>,
      level2_containers = Some
        [\<lparr>cont_id = ''webapp'', cont_name = ''Web Application'', cont_type = ''WebApp'',
          cont_technology = ''Web Browser'', cont_description = ''User interface'',
          cont_responsibilities = Some [''Display UI'', ''Handle user input''],
          cont_dependencies = Some [''api'']\<rparr>,
         \<lparr>cont_id = ''api'', cont_name = ''API'', cont_type = ''API'',
          cont_technology = ''REST API'', cont_description = ''Backend API'',
          cont_responsibilities = Some [''Business logic'', ''Data access''],
          cont_dependencies = Some []\<rparr>],
      level2_relationships = Some
        [\<lparr>rel_from = ''webapp'', rel_to = ''api'', rel_label = ''Makes API calls'',
          rel_protocol = Some ''HTTPS'', rel_dataFlow = None, rel_async = None,
          rel_pattern = None\<rparr>],
      level3_components = Some [],
      level3_relationships = Some []\<rparr>"

section \<open>The diagram store\<close>

text \<open>
  The file system is a map from paths to nodes. A file holds what \<open>JSON.parse\<close> makes of
  its text: an index document, a diagram document, or nothing when the text is not
  JSON. \<open>JSON.stringify\<close> followed by \<open>JSON.parse\<close> gives the document back.
\<close>

record IndexEntry =
  idx_id :: string
  idx_level :: nat
  idx_type :: diagram_type
  idx_title :: string
  idx_parentId :: "string option"

datatype json_doc = IndexDoc "IndexEntry list" | DiagramDoc C4Diagram

datatype node = Directory | File "json_doc option"

type_synonym file_system = "string \<rightharpoonup> node"

text \<open>\<open>path.join(dir, name)\<close> for a plain name: the file of that name in the directory.\<close>

definition path_join :: "string \<Rightarrow> string \<Rightarrow> string" where
  "path_join dir name = dir @ ''/'' @ name"

definition existsSync :: "file_system \<Rightarrow> string \<Rightarrow> bool" where
  "existsSync fs p = (fs p \<noteq> None)"

text \<open>\<open>JSON.parse(fs.readFileSync(p, 'utf-8'))\<close>\<close>

definition readJson :: "file_system \<Rightarrow> string \<Rightarrow> error + json_doc" where
  "readJson fs p =
     (case fs p of
        None \<Rightarrow> Inl ReadError
      | Some Directory \<Rightarrow> Inl ReadError
      | Some (File None) \<Rightarrow> Inl SyntaxError
      | Some (File (Some doc)) \<Rightarrow> Inr doc)"

definition c4Dir :: "string \<Rightarrow> string \<Rightarrow> string" where
  "c4Dir projectsDir projectId = path_join (path_join projectsDir projectId) ''c4-diagrams''"

definition indexEntry :: "C4Diagram \<Rightarrow> IndexEntry" where
  "indexEntry d =
     \<lparr>idx_id = diag_id d, idx_level = diag_level d, idx_type = diag_type d,
      idx_title = diag_title d, idx_parentId = diag_parentId d\<rparr>"

text \<open>
  \<open>fs.writeFileSync(path.join(dir, name), JSON.stringify(doc, null, 2))\<close>. For a plain
  file name \<open>path.join\<close> gives the file of that name in the directory, and the write
  replaces it. A name with a separator, which comes from an extracted container id such as
  \<open>a/b\<close>, addresses a directory that \<open>saveDiagrams\<close> never creates: the write throws
  (\<open>ENOENT\<close>). What \<open>path.join\<close> makes of the segments \<open>.\<close> and \<open>..\<close> in such a name is not
  modelled.
\<close>

definition writeFileSync :: "string \<Rightarrow> string \<Rightarrow> json_doc \<Rightarrow> file_system \<Rightarrow> error + file_system" where
  "writeFileSync dir name doc fs =
     (if CHR ''/'' \<in> set name then Inl WriteError
      else Inr (fs(path_join dir name \<mapsto> File (Some doc))))"

text \<open>The loop \<open>diagrams.forEach\<close> of \<open>saveDiagrams\<close>: the exception that ends it, if any,
  and the files as the writes before it left them.\<close>

fun writeDiagrams :: "string \<Rightarrow> C4Diagram list \<Rightarrow> file_system \<Rightarrow> error option \<times> file_system" where
  "writeDiagrams dir [] fs = (None, fs)"
| "writeDiagrams dir (d # ds) fs =
     (case writeFileSync dir (diag_id d @ ''.json'') (DiagramDoc d) fs of
        Inl e \<Rightarrow> (Some e, fs)
      | Inr fs1 \<Rightarrow> writeDiagrams dir ds fs1)"

definition saveDiagrams ::
  "string \<Rightarrow> string \<Rightarrow> C4Diagram list \<Rightarrow> file_system \<Rightarrow> error option \<times> file_system" where
  "saveDiagrams projectsDir projectId diagrams fs =
     (let dir = c4Dir projectsDir projectId;
          fs1 = (if \<not> existsSync fs dir then fs(dir \<mapsto> Directory) else fs)
      in case writeDiagrams dir diagrams fs1 of
           (Some e, fs2) \<Rightarrow> (Some e, fs2)
         | (None, fs2) \<Rightarrow>
             (case writeFileSync dir ''index.json'' (IndexDoc (map indexEntry diagrams)) fs2 of
                Inl e \<Rightarrow> (Some e, fs2)
              | Inr fs3 \<Rightarrow> (None, fs3)))"

text \<open>
  The loop of \<open>getDiagrams\<close> over the entries of the index. The array it fills holds
  whatever \<open>JSON.parse\<close> returns for each file.
\<close>

fun loadBodies :: "file_system \<Rightarrow> string \<Rightarrow> IndexEntry list \<Rightarrow> error + json_doc list" where
  "loadBodies fs dir [] = Inr []"
| "loadBodies fs dir (diagramRef # refs) =
     (let filePath = path_join dir (idx_id diagramRef @ ''.json'') in
      if existsSync fs filePath then
        bind_res (readJson fs filePath) (\<lambda>doc.
        bind_res (loadBodies fs dir refs) (\<lambda>docs. Inr (doc # docs)))
      else loadBodies fs dir refs)"

definition getDiagrams :: "file_system \<Rightarrow> string \<Rightarrow> string \<Rightarrow> error + json_doc list" where
  "getDiagrams fs projectsDir projectId =
     (let dir = c4Dir projectsDir projectId in
      if \<not> existsSync fs dir then Inr []
      else
        let indexPath = path_join dir ''index.json'' in
        if \<not> existsSync fs indexPath then Inr []
        else
          bind_res (readJson fs indexPath) (\<lambda>index.
            case index of
              DiagramDoc d \<Rightarrow> Inl TypeError
            | IndexDoc refs \<Rightarrow> loadBodies fs dir refs))"

section \<open>Extraction and generation\<close>

text \<open>
  The world of a run: the files, and the texts sent to the language model so far. The
  model's answer is not computed here. \<open>Throws\<close> is every way the \<open>try\<close> block of
  \<open>extractArchitecture\<close> can fail (the request, or \<open>JSON.parse\<close> of the answer);
  \<open>Parsed\<close> is the document it returns otherwise, as it is. The block reads
  \<open>content || '{}'\<close>, so for an empty completion that document is the object without
  fields.
\<close>

record world =
  files :: file_system
  requests :: "string list"

datatype outcome = Throws | Parsed ExtractedArchitecture

text \<open>\<open>r.rationale || ''\<close>\<close>

definition requirementText :: "Requirement \<Rightarrow> string" where
  "requirementText r =
     ''['' @ req_type r @ ''] '' @ req_title r @ [CHR 0x0A] @ req_description r @ [CHR 0x0A] @
     (case req_rationale r of None \<Rightarrow> [] | Some s \<Rightarrow> s)"

fun join :: "string \<Rightarrow> string list \<Rightarrow> string" where
  "join sep [] = []"
| "join sep [s] = s"
| "join sep (s # t # ss) = s @ sep @ join sep (t # ss)"

text \<open>
  \<open>promptTemplate\<close> is what \<open>getPromptContent\<close> returns: \<open>None\<close> for \<open>null\<close>; the empty
  template is falsy too. That check is made before the \<open>try\<close> block, so its exception
  is not caught. The request that is logged is the text of the requirements.
\<close>

definition extractArchitecture ::
  "string option \<Rightarrow> outcome \<Rightarrow> Requirement list \<Rightarrow> world \<Rightarrow> (error + ExtractedArchitecture) \<times> world" where
  "extractArchitecture promptTemplate answer requirements w =
     (let text = join [CHR 0x0A, CHR 0x0A] (map requirementText requirements) in
      if promptTemplate = None \<or> promptTemplate = Some [] then (Inl PromptNotFound, w)
      else
        let w1 = w\<lparr>requests := requests w @ [text]\<rparr> in
        case answer of
          Throws \<Rightarrow> (Inr (getFallbackArchitecture requirements), w1)
        | Parsed arch \<Rightarrow> (Inr arch, w1))"

definition buildAll :: "(string \<Rightarrow> string) \<Rightarrow> ExtractedArchitecture \<Rightarrow> Requirement list \<Rightarrow> error + C4Diagram list" where
  "buildAll toLowerCase architecture requirements =
     bind_res (buildLevel1Diagram architecture requirements) (\<lambda>level1.
     bind_res (buildLevel2Diagrams toLowerCase architecture requirements) (\<lambda>level2Diagrams.
     bind_res (buildLevel3Diagrams toLowerCase architecture requirements) (\<lambda>level3Diagrams.
       Inr ([level1] @ level2Diagrams @ level3Diagrams))))"

definition generateC4Diagrams ::
  "(string \<Rightarrow> string) \<Rightarrow> string option \<Rightarrow> outcome \<Rightarrow> string \<Rightarrow> string \<Rightarrow> Requirement list \<Rightarrow> world
     \<Rightarrow> (error + C4Diagram list) \<times> world" where
  "generateC4Diagrams toLowerCase promptTemplate answer projectsDir projectId requirements w =
     (case extractArchitecture promptTemplate answer requirements w of
        (Inl e, w1) \<Rightarrow> (Inl e, w1)
      | (Inr architecture, w1) \<Rightarrow>
          (case buildAll toLowerCase architecture requirements of
             Inl e \<Rightarrow> (Inl e, w1)
           | Inr diagrams \<Rightarrow>
               (case saveDiagrams projectsDir projectId diagrams (files w1) of
                  (Some e, fs1) \<Rightarrow> (Inl e, w1\<lparr>files := fs1\<rparr>)
                | (None, fs1) \<Rightarrow> (Inr diagrams, w1\<lparr>files := fs1\<rparr>))))"

section \<open>Notions of the specification\<close>

text \<open>
  The association rule as the specification words it: the keyword occurs in the title or
  the description, or the title or the description occurs in the keyword, all
  lower-cased. \<open>sublist k s\<close> is the mathematical notion: \<open>s = p @ k @ q\<close> for some \<open>p\<close>, \<open>q\<close>.
\<close>

definition specAssociates :: "(string \<Rightarrow> string) \<Rightarrow> Requirement \<Rightarrow> string \<Rightarrow> bool" where
  "specAssociates toLowerCase r k =
     (sublist (toLowerCase k) (toLowerCase (req_title r)) \<or>
      sublist (toLowerCase k) (toLowerCase (req_description r)) \<or>
      sublist (toLowerCase (req_title r)) (toLowerCase k) \<or>
      sublist (toLowerCase (req_description r)) (toLowerCase k))"

text \<open>What the code tests: the first two cases only.\<close>

definition keywordOccurs :: "(string \<Rightarrow> string) \<Rightarrow> Requirement \<Rightarrow> string \<Rightarrow> bool" where
  "keywordOccurs toLowerCase r k =
     (sublist (toLowerCase k) (toLowerCase (req_title r)) \<or>
      sublist (toLowerCase k) (toLowerCase (req_description r)))"

definition elementIds :: "C4Diagram \<Rightarrow> string list" where
  "elementIds d = map elem_id (diag_elements d)"

text \<open>Relationship closure: both ends of every relationship are ids of elements of the
  same diagram.\<close>

definition relationshipsClosed :: "C4Diagram \<Rightarrow> bool" where
  "relationshipsClosed d =
     list_all (\<lambda>r. c4_from r \<in> set (elementIds d) \<and> c4_to r \<in> set (elementIds d))
       (diag_relationships d)"

text \<open>The union of the requirement ids of the elements of a diagram.\<close>

definition elementRequirementUnion :: "C4Diagram \<Rightarrow> string set" where
  "elementRequirementUnion d = set (concat (map elem_requirements (diag_elements d)))"

text \<open>
  A response that lacks the context object, its system object or one of its arrays, the
  container array, the level-2 relationship array or the component object.
\<close>

definition structurallyIncomplete :: "ExtractedArchitecture \<Rightarrow> bool" where
  "structurallyIncomplete arch =
     (case level1_context arch of
        None \<Rightarrow> True
      | Some ctx \<Rightarrow>
          ctx_system ctx = None \<or> ctx_people ctx = None \<or> ctx_external_systems ctx = None \<or>
          ctx_relationships ctx = None \<or> level2_containers arch = None \<or>
          level2_relationships arch = None \<or> level3_components arch = None)"

definition declaredContainerIds :: "ExtractedArchitecture \<Rightarrow> string list" where
  "declaredContainerIds arch =
     (case level2_containers arch of None \<Rightarrow> [] | Some cs \<Rightarrow> map cont_id cs)"

definition hasComponents :: "ArchitectureComponent list js_object \<Rightarrow> string \<Rightarrow> bool" where
  "hasComponents comps k = (case object_get comps k of None \<Rightarrow> False | Some cs \<Rightarrow> cs \<noteq> [])"

text \<open>The components and the level-3 relationships that the answer gives for a key; none
  when the object or the key is missing.\<close>

definition componentsOf :: "ExtractedArchitecture \<Rightarrow> string \<Rightarrow> ArchitectureComponent list" where
  "componentsOf arch k =
     (case level3_components arch of
        None \<Rightarrow> []
      | Some comps \<Rightarrow> (case object_get comps k of None \<Rightarrow> [] | Some cs \<Rightarrow> cs))"

definition level3RelationshipsOf :: "ExtractedArchitecture \<Rightarrow> string \<Rightarrow> ArchitectureRelationship list" where
  "level3RelationshipsOf arch k =
     (case level3_relationships arch of
        None \<Rightarrow> []
      | Some rbc \<Rightarrow> (case object_get rbc k of None \<Rightarrow> [] | Some rs \<Rightarrow> rs))"

text \<open>The architecture that a run builds its diagrams from.\<close>

definition usedArchitecture :: "outcome \<Rightarrow> Requirement list \<Rightarrow> ExtractedArchitecture" where
  "usedArchitecture answer requirements =
     (case answer of Throws \<Rightarrow> getFallbackArchitecture requirements | Parsed arch \<Rightarrow> arch)"

text \<open>The JSON document stored under a path, if the path is a file that holds one.\<close>

definition storedDocument :: "file_system \<Rightarrow> string \<Rightarrow> json_doc option" where
  "storedDocument fs p = (case fs p of Some (File (Some doc)) \<Rightarrow> Some doc | _ \<Rightarrow> None)"

text \<open>
  The two diagrams of the fallback architecture, with the requirement ids of the system
  element and of the two containers left open.
\<close>

definition fallbackLevel1 :: "string list \<Rightarrow> C4Diagram" where
  "fallbackLevel1 allIds =
     \<lparr>diag_id = ''level1-context'', diag_level = 1, diag_type = ContextD,
      diag_title = ''System Context Diagram'', diag_description = ''To be defined'',
      diag_elements =
        [\<lparr>elem_id = ''main-system'', elem_type = SystemT, elem_name = ''System'',
          elem_description = ''Main system based on requirements'', elem_technology = None,
          elem_requirements = allIds, elem_children = Some [''webapp'', ''api'']\<rparr>,
         \<lparr>elem_id = ''user'', elem_type = PersonT, elem_name = ''User'',
          elem_description = ''End User: Interacts with the system'', elem_technology = None,
          elem_requirements = [], elem_children = None\<rparr>],
      diag_relationships =
        [\<lparr>c4_from = ''user'', c4_to = ''main-system'', c4_label = ''Uses'',
          c4_technology = Some ''HTTPS''\<rparr>],
      diag_requirementReferences = allIds, diag_parentId = None\<rparr>"

definition fallbackLevel2 :: "string list \<Rightarrow> string list \<Rightarrow> string list \<Rightarrow> C4Diagram" where
  "fallbackLevel2 webappIds apiIds allIds =
     \<lparr>diag_id = ''level2-containers'', diag_level = 2, diag_type = ContainerD,
      diag_title = ''Container Diagram'',
      diag_description = ''Deployable units and their interactions'',
      diag_elements =
        [\<lparr>elem_id = ''webapp'', elem_type = ContainerT, elem_name = ''Web Application'',
          elem_description = ''User interface'', elem_technology = Some ''Web Browser'',
          elem_requirements = webappIds, elem_children = Some []\<rparr>,
         \<lparr>elem_id = ''api'', elem_type = ContainerT, elem_name = ''API'',
          elem_description = ''Backend API'', elem_technology = Some ''REST API'',
          elem_requirements = apiIds, elem_children = Some []\<rparr>],
      diag_relationships =
        [\<lparr>c4_from = ''webapp'', c4_to = ''api'', c4_label = ''Makes API calls'',
          c4_technology = Some ''HTTPS''\<rparr>],
      diag_requirementReferences = allIds, diag_parentId = Some ''main-system''\<rparr>"

section \<open>Sample inputs\<close>

definition login_req :: Requirement where
  "login_req =
     \<lparr>req_id = ''US-00001'', req_type = ''USER_STORY'', req_title = ''User login'',
      req_description = ''user authenticates'', req_rationale = None\<rparr>"

definition display_req :: Requirement where
  "display_req =
     \<lparr>req_id = ''US-00002'', req_type = ''USER_STORY'', req_title = ''Display UI of the dashboard'',
      req_description = ''shows charts'', req_rationale = None\<rparr>"

definition short_req :: Requirement where
  "short_req =
     \<lparr>req_id = ''US-00003'', req_type = ''FUNCTIONAL'', req_title = ''Login'',
      req_description = ''Sign in'', req_rationale = None\<rparr>"

definition empty_world :: world where
  "empty_world = \<lparr>files = Map.empty, requests = []\<rparr>"

text \<open>The answer \<open>{}\<close>, which is also what an empty completion is parsed to.\<close>

definition empty_response :: ExtractedArchitecture where
  "empty_response =
     \<lparr>level1_context = None, level2_containers = None, level2_relationships = None,
      level3_components = None, level3_relationships = None\<rparr>"

definition plain_rel :: "string \<Rightarrow> string \<Rightarrow> string \<Rightarrow> ArchitectureRelationship" where
  "plain_rel a b l =
     \<lparr>rel_from = a, rel_to = b, rel_label = l, rel_protocol = None, rel_dataFlow = None,
      rel_async = None, rel_pattern = None\<rparr>"

definition plain_component :: "string \<Rightarrow> string list \<Rightarrow> ArchitectureComponent" where
  "plain_component i caps =
     \<lparr>comp_id = i, comp_name = i, comp_type = ''Service'', comp_technology = ''TypeScript'',
      comp_description = [], comp_capabilities = Some caps, comp_dependencies = []\<rparr>"

definition plain_container :: "string \<Rightarrow> string list \<Rightarrow> ArchitectureContainer" where
  "plain_container i resps =
     \<lparr>cont_id = i, cont_name = i, cont_type = ''Service'', cont_technology = ''Node'',
      cont_description = [], cont_responsibilities = Some resps, cont_dependencies = None\<rparr>"

definition plain_external :: "string \<Rightarrow> ArchitectureExternalSystem" where
  "plain_external i =
     \<lparr>ext_id = i, ext_name = i, ext_type = ''SaaS'', ext_description = [],
      ext_protocol = None, ext_dataFormat = None\<rparr>"

text \<open>
  A complete answer: a container \<open>auth\<close> with two components, a container \<open>shop\<close> with
  none, components under a key \<open>ghost\<close> that is no container, and two external systems of
  which only \<open>stripe\<close> is an end of a level-2 relationship.
\<close>

definition sample_response :: ExtractedArchitecture where
  "sample_response =
     \<lparr>level1_context = Some
        \<lparr>ctx_system = Some \<lparr>sys_name = ''Shop'', sys_description = ''Web shop'', sys_scope = ''Sales''\<rparr>,
         ctx_people = Some
           [\<lparr>person_id = ''customer'', person_name = ''Customer'', person_role = ''Buyer'',
             person_description = ''Buys goods'', person_interactions = []\<rparr>],
         ctx_external_systems = Some [plain_external ''stripe'', plain_external ''smtp''],
         ctx_relationships = Some
           [plain_rel ''customer'' ''system'' ''Buys'', plain_rel ''main-system'' ''smtp'' ''Sends mail'']\<rparr>,
      level2_containers = Some
        [plain_container ''auth'' [''login''], plain_container ''shop'' [''checkout'']],
      level2_relationships = Some
        [plain_rel ''shop'' ''auth'' ''Checks session'', plain_rel ''shop'' ''stripe'' ''Charges'' ],
      level3_components = Some
        [(''auth'', [plain_component ''login-ui'' [''login''], plain_component ''auth-api'' [''token'']]),
         (''ghost'', [plain_component ''orphan'' []]),
         (''shop'', [])],
      level3_relationships = Some
        [(''auth'', [plain_rel ''login-ui'' ''auth-api'' ''Calls''])]\<rparr>"

text \<open>The same answer with a level-2 relationship to an id that nothing declares.\<close>

definition dangling_response :: ExtractedArchitecture where
  "dangling_response =
     sample_response\<lparr>level2_relationships := Some [plain_rel ''auth'' ''nowhere'' ''Calls'']\<rparr>"

text \<open>A container whose responsibility is longer than the title of \<open>short_req\<close>.\<close>

definition page_response :: ExtractedArchitecture where
  "page_response =
     sample_response\<lparr>level2_containers := Some [plain_container ''auth'' [''User login page'']]\<rparr>"

text \<open>A complete answer whose one container has an id with a separator, and a component.\<close>

definition slash_response :: ExtractedArchitecture where
  "slash_response =
     sample_response
       \<lparr>level2_containers := Some [plain_container ''a/b'' []],
        level2_relationships := Some [],
        level3_components := Some [(''a/b'', [plain_component ''c'' []])],
        level3_relationships := Some []\<rparr>"

text \<open>A store whose index lists two diagrams and that holds the body of the first only.\<close>

definition partial_store :: file_system where
  "partial_store =
     [''projects/p1/c4-diagrams'' \<mapsto> Directory,
      ''projects/p1/c4-diagrams/index.json'' \<mapsto>
        File (Some (IndexDoc [indexEntry (fallbackLevel1 []), indexEntry (fallbackLevel2 [] [] [])])),
      ''projects/p1/c4-diagrams/level1-context.json'' \<mapsto>
        File (Some (DiagramDoc (fallbackLevel1 [])))]"

text \<open>The element ids of a result with their requirement ids, diagram by diagram; no
  diagram for a failed run.\<close>

definition elementRequirementsOf :: "error + C4Diagram list \<Rightarrow> (string \<times> string list) list list" where
  "elementRequirementsOf res =
     (case res of
        Inl e \<Rightarrow> []
      | Inr ds \<Rightarrow> map (\<lambda>d. map (\<lambda>e. (elem_id e, elem_requirements e)) (diag_elements d)) ds)"

text \<open>The three diagrams that \<open>sample_response\<close> gives for the one requirement \<open>login_req\<close>.\<close>

definition plain_element :: "string \<Rightarrow> element_type \<Rightarrow> string option \<Rightarrow> string list \<Rightarrow> string list option \<Rightarrow> C4Element" where
  "plain_element i t tech reqs children =
     \<lparr>elem_id = i, elem_type = t, elem_name = i, elem_description = [], elem_technology = tech,
      elem_requirements = reqs, elem_children = children\<rparr>"

definition sample_level1 :: C4Diagram where
  "sample_level1 =
     \<lparr>diag_id = ''level1-context'', diag_level = 1, diag_type = ContextD,
      diag_title = ''System Context Diagram'', diag_description = ''Sales'',
      diag_elements =
        [\<lparr>elem_id = ''main-system'', elem_type = SystemT, elem_name = ''Shop'',
          elem_description = ''Web shop'', elem_technology = None,
          elem_requirements = [''US-00001''], elem_children = Some [''auth'', ''shop'']\<rparr>,
         \<lparr>elem_id = ''customer'', elem_type = PersonT, elem_name = ''Customer'',
          elem_description = ''Buyer: Buys goods'', elem_technology = None,
          elem_requirements = [], elem_children = None\<rparr>,
         plain_element ''stripe'' SystemT None [] None,
         plain_element ''smtp'' SystemT None [] None],
      diag_relationships =
        [\<lparr>c4_from = ''customer'', c4_to = ''main-system'', c4_label = ''Buys'', c4_technology = None\<rparr>,
         \<lparr>c4_from = ''main-system'', c4_to = ''smtp'', c4_label = ''Sends mail'', c4_technology = None\<rparr>],
      diag_requirementReferences = [''US-00001''], diag_parentId = None\<rparr>"

definition sample_auth_element :: C4Element where
  "sample_auth_element =
     plain_element ''auth'' ContainerT (Some ''Node'') [''US-00001''] (Some [''login-ui'', ''auth-api''])"

definition sample_level2 :: C4Diagram where
  "sample_level2 =
     \<lparr>diag_id = ''level2-containers'', diag_level = 2, diag_type = ContainerD,
      diag_title = ''Container Diagram'',
      diag_description = ''Deployable units and their interactions'',
      diag_elements =
        [sample_auth_element,
         plain_element ''shop'' ContainerT (Some ''Node'') [] (Some []),
         plain_element ''stripe'' SystemT None [] None],
      diag_relationships =
        [\<lparr>c4_from = ''shop'', c4_to = ''auth'', c4_label = ''Checks session'', c4_technology = None\<rparr>,
         \<lparr>c4_from = ''shop'', c4_to = ''stripe'', c4_label = ''Charges'', c4_technology = None\<rparr>],
      diag_requirementReferences = [''US-00001''], diag_parentId = Some ''main-system''\<rparr>"

definition sample_level3 :: C4Diagram where
  "sample_level3 =
     \<lparr>diag_id = ''level3-auth'', diag_level = 3, diag_type = ComponentD,
      diag_title = ''Component Diagram - auth'',
      diag_description = ''Internal components of auth'',
      diag_elements =
        [plain_element ''login-ui'' ComponentT (Some ''TypeScript'') [''US-00001''] None,
         plain_element ''auth-api'' ComponentT (Some ''TypeScript'') [] None],
      diag_relationships =
        [\<lparr>c4_from = ''login-ui'', c4_to = ''auth-api'', c4_label = ''Calls'', c4_technology = None\<rparr>],
      diag_requirementReferences = [''US-00001''], diag_parentId = Some ''auth''\<rparr>"

text \<open>The level-2 diagram of \<open>dangling_response\<close> for \<open>login_req\<close>.\<close>

definition dangling_level2 :: C4Diagram where
  "dangling_level2 =
     sample_level2
       \<lparr>diag_elements :=
          [sample_auth_element, plain_element ''shop'' ContainerT (Some ''Node'') [] (Some [])],
        diag_relationships :=
          [\<lparr>c4_from = ''auth'', c4_to = ''nowhere'', c4_label = ''Calls'', c4_technology = None\<rparr>]\<rparr>"

section \<open>Exceptions, loops and the shape of a successful build\<close>

lemma bind_res_Inr: "bind_res m f = Inr y \<longleftrightarrow> (\<exists>x. m = Inr x \<and> f x = Inr y)"
  by (cases m) (simp_all add: bind_res_def)

lemma bind_res_Inl: "bind_res m f = Inl e \<longleftrightarrow> (m = Inl e \<or> (\<exists>x. m = Inr x \<and> f x = Inl e))"
  by (cases m) (simp_all add: bind_res_def)

lemma deref_Inr: "deref v = Inr x \<longleftrightarrow> v = Some x"
  by (cases v) (simp_all add: deref_def)

lemma deref_Inl: "deref v = Inl e \<longleftrightarrow> v = None \<and> e = TypeError"
  by (cases v) (auto simp add: deref_def)

lemma map_res_Inr: "map_res f xs = Inr ys \<longleftrightarrow> list_all2 (\<lambda>x y. f x = Inr y) xs ys"
proof (induction xs arbitrary: ys)
  case Nil
  then show ?case by auto
next
  case (Cons x xs)
  show ?case
  proof (cases "f x")
    case (Inl e)
    then show ?thesis by (simp add: list_all2_Cons1)
  next
    case fx: (Inr y)
    show ?thesis
    proof (cases "map_res f xs")
      case (Inl e)
      with Cons.IH have "\<And>zs. \<not> list_all2 (\<lambda>x y. f x = Inr y) xs zs" by simp
      with fx Inl show ?thesis by (simp add: list_all2_Cons1)
    next
      case (Inr zs)
      with Cons.IH have "\<And>zs'. list_all2 (\<lambda>x y. f x = Inr y) xs zs' \<longleftrightarrow> zs = zs'" by simp
      with fx Inr show ?thesis by (auto simp add: list_all2_Cons1)
    qed
  qed
qed

lemma map_res_Inl:
  assumes "map_res f xs = Inl e"
  shows "\<exists>x\<in>set xs. f x = Inl e"
  using assms by (induction xs) (auto split: sum.splits)

lemma str_includes_iff: "str_includes s k \<longleftrightarrow> sublist k s"
  by (induction s) (auto simp add: sublist_Cons_right)

lemma matchesKeyword_iff: "matchesKeyword toLowerCase r k \<longleftrightarrow> keywordOccurs toLowerCase r k"
  by (simp add: matchesKeyword_def keywordOccurs_def str_includes_iff)

lemma matchesSome_iff: "matchesSome toLowerCase ks r \<longleftrightarrow> (\<exists>k\<in>set ks. keywordOccurs toLowerCase r k)"
  by (simp add: matchesSome_def list_ex_iff matchesKeyword_iff)

lemma traceRequirements_Some:
  "traceRequirements toLowerCase reqs (Some ks) = Inr (map req_id (filter (matchesSome toLowerCase ks) reqs))"
  by (simp add: traceRequirements_def)

lemma traceRequirements_subset:
  assumes "traceRequirements toLowerCase reqs kws = Inr rs"
  shows "set rs \<subseteq> req_id ` set reqs"
  using assms by (auto simp add: traceRequirements_def split: option.splits if_splits)

lemma traceRequirements_Inl: "traceRequirements toLowerCase reqs kws = Inl e \<Longrightarrow> e = TypeError"
  by (auto simp add: traceRequirements_def split: option.splits if_splits)

lemma containerElement_InrE:
  assumes "containerElement toLowerCase arch reqs c = Inr e"
  obtains rs comps where
    "traceRequirements toLowerCase reqs (cont_responsibilities c) = Inr rs"
    "level3_components arch = Some comps"
    "elem_id e = cont_id c" "elem_type e = ContainerT" "elem_requirements e = rs"
    "elem_children e = Some (case object_get comps (cont_id c) of None \<Rightarrow> [] | Some cs \<Rightarrow> map comp_id cs)"
  using assms by (auto simp add: containerElement_def bind_res_Inr deref_Inr)

lemma componentElement_InrE:
  assumes "componentElement toLowerCase reqs c = Inr e"
  obtains rs where
    "traceRequirements toLowerCase reqs (comp_capabilities c) = Inr rs"
    "elem_id e = comp_id c" "elem_type e = ComponentT" "elem_requirements e = rs"
    "elem_children e = None"
  using assms by (auto simp add: componentElement_def bind_res_Inr)

lemma buildLevel1Diagram_InrE:
  assumes "buildLevel1Diagram arch reqs = Inr d"
  obtains ctx sys conts people exts rels where
    "level1_context arch = Some ctx" "ctx_system ctx = Some sys"
    "level2_containers arch = Some conts" "ctx_people ctx = Some people"
    "ctx_external_systems ctx = Some exts" "ctx_relationships ctx = Some rels"
    "diag_level d = 1" "diag_parentId d = None"
    "diag_elements d =
       \<lparr>elem_id = system_id, elem_type = SystemT, elem_name = sys_name sys,
        elem_description = sys_description sys, elem_technology = None,
        elem_requirements = map req_id reqs, elem_children = Some (map cont_id conts)\<rparr>
       # map personElement people @ map externalElement exts"
    "diag_relationships d = map level1Relationship rels"
    "diag_requirementReferences d = map req_id reqs"
  using assms by (auto simp add: buildLevel1Diagram_def bind_res_Inr deref_Inr)

lemma buildLevel2Diagrams_InrE:
  assumes "buildLevel2Diagrams toLowerCase arch reqs = Inr ds"
  obtains d conts elems ctx exts rels where
    "ds = [d]" "level2_containers arch = Some conts"
    "list_all2 (\<lambda>c e. containerElement toLowerCase arch reqs c = Inr e) conts elems"
    "level1_context arch = Some ctx" "ctx_external_systems ctx = Some exts"
    "level2_relationships arch = Some rels"
    "diag_level d = 2" "diag_parentId d = Some ''main-system''"
    "diag_elements d =
       elems @ map externalElement (filter (\<lambda>sys. isEndpoint rels (ext_id sys)) exts)"
    "diag_relationships d = map level2Relationship rels"
    "diag_requirementReferences d = map req_id reqs"
  using assms by (auto simp add: buildLevel2Diagrams_def bind_res_Inr deref_Inr map_res_Inr)

lemma level3ForContainer_cases:
  assumes "level3ForContainer toLowerCase arch reqs comps k = Inr ds"
  shows "(ds = [] \<and> \<not> (hasComponents comps k \<and> k \<in> set (declaredContainerIds arch))) \<or>
    (\<exists>cs conts c es rbc.
       ds = [level3Diagram k c es
               (map level3Relationship (case object_get rbc k of None \<Rightarrow> [] | Some rs \<Rightarrow> rs)) reqs] \<and>
       object_get comps k = Some cs \<and> cs \<noteq> [] \<and>
       level2_containers arch = Some conts \<and> find (\<lambda>c. cont_id c = k) conts = Some c \<and>
       list_all2 (\<lambda>c e. componentElement toLowerCase reqs c = Inr e) cs es \<and>
       level3_relationships arch = Some rbc)"
proof (cases "object_get comps k")
  case None
  with assms show ?thesis by (simp add: level3ForContainer_def hasComponents_def)
next
  case (Some cs)
  show ?thesis
  proof (cases "cs = []")
    case True
    with Some assms show ?thesis by (simp add: level3ForContainer_def hasComponents_def)
  next
    case False
    with Some assms obtain conts where conts: "level2_containers arch = Some conts"
      and rest: "(case find (\<lambda>c. cont_id c = k) conts of
                None \<Rightarrow> Inr []
              | Some container \<Rightarrow>
                  bind_res (map_res (componentElement toLowerCase reqs) cs) (\<lambda>elements.
                  bind_res (deref (level3_relationships arch)) (\<lambda>relsByContainer.
                    Inr [level3Diagram k container elements
                           (map level3Relationship
                              (case object_get relsByContainer k of None \<Rightarrow> [] | Some rs \<Rightarrow> rs))
                           reqs]))) = Inr ds"
      by (auto simp add: level3ForContainer_def bind_res_Inr deref_Inr)
    show ?thesis
    proof (cases "find (\<lambda>c. cont_id c = k) conts")
      case None
      then have "k \<notin> set (declaredContainerIds arch)"
        by (auto simp add: declaredContainerIds_def conts find_None_iff)
      moreover from None rest have "ds = []" by simp
      ultimately show ?thesis by simp
    next
      case found: (Some c)
      with rest obtain es rbc where
        "list_all2 (\<lambda>c e. componentElement toLowerCase reqs c = Inr e) cs es"
        "level3_relationships arch = Some rbc"
        "ds = [level3Diagram k c es
                 (map level3Relationship (case object_get rbc k of None \<Rightarrow> [] | Some rs \<Rightarrow> rs))
                 reqs]"
        by (auto simp add: bind_res_Inr deref_Inr map_res_Inr)
      with Some False conts found show ?thesis by blast
    qed
  qed
qed

lemma buildLevel3Diagrams_InrE:
  assumes "buildLevel3Diagrams toLowerCase arch reqs = Inr ds"
  obtains comps pushed where
    "level3_components arch = Some comps"
    "list_all2 (\<lambda>k p. level3ForContainer toLowerCase arch reqs comps k = Inr p) (object_keys comps) pushed"
    "ds = concat pushed"
  using assms by (auto simp add: buildLevel3Diagrams_def bind_res_Inr deref_Inr map_res_Inr)

lemma buildAll_InrE:
  assumes "buildAll toLowerCase arch reqs = Inr ds"
  obtains d1 d2 d3s where
    "ds = d1 # d2 # d3s" "buildLevel1Diagram arch reqs = Inr d1"
    "buildLevel2Diagrams toLowerCase arch reqs = Inr [d2]" "buildLevel3Diagrams toLowerCase arch reqs = Inr d3s"
proof -
  from assms obtain d1 l2 d3s where
    a: "buildLevel1Diagram arch reqs = Inr d1" "buildLevel2Diagrams toLowerCase arch reqs = Inr l2"
       "buildLevel3Diagrams toLowerCase arch reqs = Inr d3s" "ds = [d1] @ l2 @ d3s"
    by (auto simp add: buildAll_def bind_res_Inr)
  from a(2) obtain d2 where "l2 = [d2]" by (rule buildLevel2Diagrams_InrE)
  with a that show thesis by simp
qed


section \<open>Properties of the builders and of the store\<close>

text \<open>
  What generate() returns is the build of the architecture in use: the diagrams of a
  successful call are those of \<open>buildAll\<close>, the level-1 diagram first, then the level-2
  diagram, then the level-3 diagrams. The claims about the diagrams of a run are stated
  for \<open>buildAll\<close>.
\<close>

lemma generate_result:
  assumes "fst (generateC4Diagrams toLowerCase promptTemplate answer projectsDir projectId reqs w) = Inr ds"
  shows "buildAll toLowerCase (usedArchitecture answer reqs) reqs = Inr ds"
  using assms
  by (cases answer)
    (auto simp add: generateC4Diagrams_def extractArchitecture_def usedArchitecture_def Let_def
      split: if_splits sum.splits prod.splits option.splits)

lemma sample_run:
  "buildAll asciiToLowerCase sample_response [login_req] = Inr [sample_level1, sample_level2, sample_level3]"
  by code_simp

lemma level3ForContainer_parent:
  assumes "level3ForContainer toLowerCase arch reqs comps k = Inr p"
  shows "map diag_parentId p =
    (if hasComponents comps k \<and> k \<in> set (declaredContainerIds arch) then [Some k] else [])"
proof -
  from level3ForContainer_cases [OF assms] show ?thesis
  proof (elim disjE exE conjE)
    assume "p = []" "\<not> (hasComponents comps k \<and> k \<in> set (declaredContainerIds arch))"
    then show ?thesis by simp
  next
    fix cs conts c es rbc
    assume p: "p = [level3Diagram k c es
               (map level3Relationship (case object_get rbc k of None \<Rightarrow> [] | Some rs \<Rightarrow> rs)) reqs]"
      and cs: "object_get comps k = Some cs" "cs \<noteq> []"
      and conts: "level2_containers arch = Some conts" "find (\<lambda>c. cont_id c = k) conts = Some c"
    from conts(2) have "c \<in> set conts" "cont_id c = k"
      by (auto simp add: find_Some_iff)
    with conts(1) have "k \<in> set (declaredContainerIds arch)"
      by (auto simp add: declaredContainerIds_def)
    with cs p show ?thesis by (simp add: hasComponents_def level3Diagram_def)
  qed
qed

lemma pushed_parents:
  assumes "list_all2 (\<lambda>k p. F k = Inr p) ks pushed"
    and "\<And>k p. F k = Inr p \<Longrightarrow> map diag_parentId p = (if Q k then [Some k] else [])"
  shows "map diag_parentId (concat pushed) = map Some (filter Q ks)"
  using assms(1)
proof (induction rule: list_all2_induct)
  case Nil
  then show ?case by simp
next
  case (Cons k ks p ps)
  from assms(2) [OF Cons.hyps(1)] Cons.IH show ?case by simp
qed

lemma pushed_filter:
  assumes "list_all2 (\<lambda>k p. F k = Inr p) ks pushed"
    and "\<And>k p. F k = Inr p \<Longrightarrow> map diag_parentId p = (if Q k then [Some k] else [])"
    and "distinct ks" "k \<in> set ks" "F k = Inr pk"
  shows "filter (\<lambda>d. diag_parentId d = Some k) (concat pushed) = pk"
  using assms(1,3,4)
proof (induction rule: list_all2_induct)
  case Nil
  then show ?case by simp
next
  case (Cons k' ks p ps)
  have par: "\<And>k p d. F k = Inr p \<Longrightarrow> d \<in> set p \<Longrightarrow> diag_parentId d = Some k"
  proof -
    fix k p d assume "F k = Inr p" "d \<in> set p"
    from assms(2) [OF this(1)] this(2) show "diag_parentId d = Some k"
      by (cases p) (auto split: if_splits)
  qed
  have none: "filter (\<lambda>d. diag_parentId d = Some a) (concat qs) = []"
    if "list_all2 (\<lambda>k p. F k = Inr p) js qs" "a \<notin> set js" for a js qs
    using that
  proof (induction rule: list_all2_induct)
    case Nil
    then show ?case by simp
  next
    case (Cons j js q qs)
    from par [OF Cons.hyps(1)] Cons.prems have "filter (\<lambda>d. diag_parentId d = Some a) q = []"
      by (auto simp add: filter_empty_conv)
    with Cons show ?case by simp
  qed
  show ?case
  proof (cases "k = k'")
    case True
    with Cons.hyps(1) assms(5) have "p = pk" by simp
    moreover from par [OF Cons.hyps(1)] True have "filter (\<lambda>d. diag_parentId d = Some k) p = p"
      by (auto simp add: filter_id_conv)
    moreover from True Cons.prems have "k \<notin> set ks" by simp
    from none [OF Cons.hyps(2) this] have "filter (\<lambda>d. diag_parentId d = Some k) (concat ps) = []" .
    ultimately show ?thesis by simp
  next
    case False
    with par [OF Cons.hyps(1)] have "filter (\<lambda>d. diag_parentId d = Some k) p = []"
      by (auto simp add: filter_empty_conv)
    with Cons False show ?thesis by simp
  qed
qed

lemma list_all2_in_set2:
  assumes "list_all2 P xs ys" "y \<in> set ys"
  shows "\<exists>x\<in>set xs. P x y"
  using assms by (induction rule: list_all2_induct) auto

lemma componentElements_ids:
  assumes "list_all2 (\<lambda>c e. componentElement toLowerCase reqs c = Inr e) cs es"
  shows "map elem_id es = map comp_id cs"
  using assms by (induction rule: list_all2_induct) (auto elim: componentElement_InrE)

lemma level3_diagram_shape:
  assumes "buildLevel3Diagrams toLowerCase arch reqs = Inr ds" "d \<in> set ds"
  shows "\<exists>comps k cs conts c es rbc.
       level3_components arch = Some comps \<and> k \<in> set (object_keys comps) \<and>
       d = level3Diagram k c es
             (map level3Relationship (case object_get rbc k of None \<Rightarrow> [] | Some rs \<Rightarrow> rs)) reqs \<and>
       object_get comps k = Some cs \<and> cs \<noteq> [] \<and>
       level2_containers arch = Some conts \<and> find (\<lambda>c. cont_id c = k) conts = Some c \<and>
       list_all2 (\<lambda>c e. componentElement toLowerCase reqs c = Inr e) cs es \<and>
       level3_relationships arch = Some rbc"
proof -
  from assms(1) obtain comps pushed where comps: "level3_components arch = Some comps"
    and pushed: "list_all2 (\<lambda>k p. level3ForContainer toLowerCase arch reqs comps k = Inr p) (object_keys comps) pushed"
    and ds: "ds = concat pushed"
    by (rule buildLevel3Diagrams_InrE)
  from assms(2) ds obtain p where p: "p \<in> set pushed" "d \<in> set p" by auto
  from list_all2_in_set2 [OF pushed p(1)] obtain k where
    k: "k \<in> set (object_keys comps)" "level3ForContainer toLowerCase arch reqs comps k = Inr p"
    by blast
  from level3ForContainer_cases [OF k(2)] p(2) comps k(1) show ?thesis
    by (elim disjE exE conjE) (simp, fastforce)
qed

lemma containerElements_type:
  assumes "list_all2 (\<lambda>c e. containerElement toLowerCase arch reqs c = Inr e) conts elems" "e \<in> set elems"
  shows "elem_type e = ContainerT"
proof -
  from list_all2_in_set2 [OF assms] obtain c where "containerElement toLowerCase arch reqs c = Inr e" by blast
  then show ?thesis by (rule containerElement_InrE)
qed

lemma componentElements_type:
  assumes "list_all2 (\<lambda>c e. componentElement toLowerCase reqs c = Inr e) cs es" "e \<in> set es"
  shows "elem_type e = ComponentT"
proof -
  from list_all2_in_set2 [OF assms] obtain c where "componentElement toLowerCase reqs c = Inr e" by blast
  then show ?thesis by (rule componentElement_InrE)
qed

lemma isEndpoint_iff: "isEndpoint rels i \<longleftrightarrow> (\<exists>r\<in>set rels. rel_from r = i \<or> rel_to r = i)"
  by (simp add: isEndpoint_def list_ex_iff)

lemma containerElements_requirements:
  assumes "list_all2 (\<lambda>c e. containerElement toLowerCase arch reqs c = Inr e) conts elems" "e \<in> set elems"
  shows "set (elem_requirements e) \<subseteq> req_id ` set reqs"
proof -
  from list_all2_in_set2 [OF assms] obtain c where "containerElement toLowerCase arch reqs c = Inr e" by blast
  then show ?thesis by (auto elim!: containerElement_InrE dest: traceRequirements_subset)
qed

lemma componentElements_requirements:
  assumes "list_all2 (\<lambda>c e. componentElement toLowerCase reqs c = Inr e) cs es" "e \<in> set es"
  shows "set (elem_requirements e) \<subseteq> req_id ` set reqs"
proof -
  from list_all2_in_set2 [OF assms] obtain c where "componentElement toLowerCase reqs c = Inr e" by blast
  then show ?thesis by (auto elim!: componentElement_InrE dest: traceRequirements_subset)
qed

lemma level3Diagram_union:
  assumes "\<And>e. e \<in> set es \<Longrightarrow> set (elem_requirements e) \<subseteq> req_id ` set reqs"
  shows "set (diag_requirementReferences (level3Diagram k c es rs reqs)) =
         elementRequirementUnion (level3Diagram k c es rs reqs)"
proof
  show "set (diag_requirementReferences (level3Diagram k c es rs reqs))
      \<subseteq> elementRequirementUnion (level3Diagram k c es rs reqs)"
    by (auto simp add: level3Diagram_def elementRequirementUnion_def list_ex_iff)
next
  show "elementRequirementUnion (level3Diagram k c es rs reqs)
      \<subseteq> set (diag_requirementReferences (level3Diagram k c es rs reqs))"
  proof
    fix x assume "x \<in> elementRequirementUnion (level3Diagram k c es rs reqs)"
    then obtain e where e: "e \<in> set es" "x \<in> set (elem_requirements e)"
      by (auto simp add: level3Diagram_def elementRequirementUnion_def)
    with assms obtain r where "r \<in> set reqs" "x = req_id r" by blast
    with e show "x \<in> set (diag_requirementReferences (level3Diagram k c es rs reqs))"
      by (auto simp add: level3Diagram_def list_ex_iff)
  qed
qed

lemma personElement_id: "elem_id (personElement p) = person_id p"
  by (simp add: personElement_def)

lemma externalElement_id: "elem_id (externalElement x) = ext_id x"
  by (simp add: externalElement_def)

lemma containerElements_ids:
  assumes "list_all2 (\<lambda>c e. containerElement toLowerCase arch reqs c = Inr e) conts elems"
  shows "map elem_id elems = map cont_id conts"
  using assms by (induction rule: list_all2_induct) (auto elim: containerElement_InrE)

lemma level3Diagram_closed:
  assumes "map elem_id es = map comp_id cs"
  shows "relationshipsClosed (level3Diagram k c es (map level3Relationship rs) reqs) \<longleftrightarrow>
         (\<forall>r\<in>set rs. rel_from r \<in> comp_id ` set cs \<and> rel_to r \<in> comp_id ` set cs)"
proof -
  have "set (map elem_id es) = comp_id ` set cs" unfolding assms by simp
  then show ?thesis
    by (simp add: relationshipsClosed_def elementIds_def level3Diagram_def list_all_iff
        level3Relationship_def)
qed

lemma loadBodies_eq:
  "loadBodies fs dir refs =
     map_res (readJson fs)
       (filter (existsSync fs) (map (\<lambda>r. path_join dir (idx_id r @ ''.json'')) refs))"
  by (induction refs) (simp_all add: Let_def bind_res_def split: sum.splits)

lemma readJson_stored:
  assumes "storedDocument fs p = Some doc"
  shows "readJson fs p = Inr doc"
  using assms by (auto simp add: storedDocument_def readJson_def split: option.splits node.splits)

lemma loadBodies_stored:
  assumes "\<And>r. r \<in> set refs \<Longrightarrow> existsSync fs (path_join dir (idx_id r @ ''.json'')) \<Longrightarrow>
             storedDocument fs (path_join dir (idx_id r @ ''.json'')) \<noteq> None"
  shows "loadBodies fs dir refs =
         Inr (List.map_filter (\<lambda>r. storedDocument fs (path_join dir (idx_id r @ ''.json''))) refs)"
  using assms
proof (induction refs)
  case Nil
  then show ?case by (simp add: List.map_filter_simps)
next
  case (Cons r refs)
  let ?p = "path_join dir (idx_id r @ ''.json'')"
  from Cons have IH: "loadBodies fs dir refs =
         Inr (List.map_filter (\<lambda>r. storedDocument fs (path_join dir (idx_id r @ ''.json''))) refs)"
    by simp
  show ?case
  proof (cases "existsSync fs ?p")
    case True
    with Cons.prems [of r] obtain doc where doc: "storedDocument fs ?p = Some doc" by auto
    from readJson_stored [OF doc] True IH doc show ?thesis
      by (simp add: List.map_filter_simps bind_res_def)
  next
    case False
    then have "storedDocument fs ?p = None"
      by (simp add: existsSync_def storedDocument_def)
    with False IH show ?thesis by (simp add: List.map_filter_simps)
  qed
qed

lemma containerElement_Inl: "containerElement toLowerCase arch reqs c = Inl e \<Longrightarrow> e = TypeError"
  by (auto simp add: containerElement_def bind_res_Inl deref_Inl dest: traceRequirements_Inl)

lemma componentElement_Inl: "componentElement toLowerCase reqs c = Inl e \<Longrightarrow> e = TypeError"
  by (auto simp add: componentElement_def bind_res_Inl dest: traceRequirements_Inl)

lemma buildLevel1Diagram_Inl: "buildLevel1Diagram arch reqs = Inl e \<Longrightarrow> e = TypeError"
  by (auto simp add: buildLevel1Diagram_def bind_res_Inl deref_Inl)

lemma buildLevel2Diagrams_Inl: "buildLevel2Diagrams toLowerCase arch reqs = Inl e \<Longrightarrow> e = TypeError"
  by (auto simp add: buildLevel2Diagrams_def bind_res_Inl deref_Inl
      dest!: map_res_Inl containerElement_Inl)

lemma level3ForContainer_Inl: "level3ForContainer toLowerCase arch reqs comps k = Inl e \<Longrightarrow> e = TypeError"
  by (auto simp add: level3ForContainer_def bind_res_Inl deref_Inl
      split: option.splits if_splits dest!: map_res_Inl componentElement_Inl)

lemma buildLevel3Diagrams_Inl: "buildLevel3Diagrams toLowerCase arch reqs = Inl e \<Longrightarrow> e = TypeError"
  by (auto simp add: buildLevel3Diagrams_def bind_res_Inl deref_Inl
      dest!: map_res_Inl level3ForContainer_Inl)

lemma buildAll_Inl: "buildAll toLowerCase arch reqs = Inl e \<Longrightarrow> e = TypeError"
  by (auto simp add: buildAll_def bind_res_Inl
      dest: buildLevel1Diagram_Inl buildLevel2Diagrams_Inl buildLevel3Diagrams_Inl)

lemma incomplete_build:
  assumes "structurallyIncomplete arch"
  shows "buildAll toLowerCase arch reqs = Inl TypeError"
proof (cases "buildAll toLowerCase arch reqs")
  case (Inl e)
  with buildAll_Inl [OF Inl] show ?thesis by simp
next
  case (Inr ds)
  then obtain d1 d2 d3s where l1: "buildLevel1Diagram arch reqs = Inr d1"
    and l2: "buildLevel2Diagrams toLowerCase arch reqs = Inr [d2]"
    and l3: "buildLevel3Diagrams toLowerCase arch reqs = Inr d3s"
    by (rule buildAll_InrE)
  from l1 obtain ctx where "level1_context arch = Some ctx" "ctx_system ctx \<noteq> None"
    "level2_containers arch \<noteq> None" "ctx_people ctx \<noteq> None"
    "ctx_external_systems ctx \<noteq> None" "ctx_relationships ctx \<noteq> None"
    by (auto elim!: buildLevel1Diagram_InrE)
  moreover from l2 have "level2_relationships arch \<noteq> None"
    by (auto elim!: buildLevel2Diagrams_InrE)
  moreover from l3 have "level3_components arch \<noteq> None"
    by (auto elim!: buildLevel3Diagrams_InrE)
  ultimately have "\<not> structurallyIncomplete arch"
    by (simp add: structurallyIncomplete_def)
  with assms show ?thesis by simp
qed

lemma fallback_build:
  "buildAll toLowerCase (getFallbackArchitecture reqs) reqs =
     Inr [fallbackLevel1 (map req_id reqs),
          fallbackLevel2
            (map req_id (filter (matchesSome toLowerCase [''Display UI'', ''Handle user input'']) reqs))
            (map req_id (filter (matchesSome toLowerCase [''Business logic'', ''Data access'']) reqs))
            (map req_id reqs)]"
  by (simp add: buildAll_def buildLevel1Diagram_def buildLevel2Diagrams_def
      buildLevel3Diagrams_def containerElement_def getFallbackArchitecture_def
      traceRequirements_def bind_res_def deref_def object_get_def object_keys_def
      personElement_def level1Relationship_def level2Relationship_def js_or_def system_id_def
      fallbackLevel1_def fallbackLevel2_def)

lemma fallback_ids:
  "diag_id (fallbackLevel1 a) = ''level1-context''"
  "diag_id (fallbackLevel2 b c d) = ''level2-containers''"
  by (simp_all add: fallbackLevel1_def fallbackLevel2_def)

lemma save_fallback:
  "fst (saveDiagrams projectsDir projectId [fallbackLevel1 a, fallbackLevel2 b c d] fs) = None"
  by (simp add: saveDiagrams_def writeFileSync_def Let_def fallback_ids)

lemma load_saved_fallback:
  "getDiagrams (snd (saveDiagrams projectsDir projectId [fallbackLevel1 a, fallbackLevel2 b c d] fs))
     projectsDir projectId =
   Inr [DiagramDoc (fallbackLevel1 a), DiagramDoc (fallbackLevel2 b c d)]"
  by (simp add: saveDiagrams_def writeFileSync_def getDiagrams_def Let_def fallback_ids
      path_join_def existsSync_def readJson_def bind_res_def indexEntry_def)

lemma generate_fallback:
  assumes "t \<noteq> []"
  shows "generateC4Diagrams toLowerCase (Some t) Throws projectsDir projectId reqs w =
    (Inr [fallbackLevel1 (map req_id reqs),
          fallbackLevel2
            (map req_id (filter (matchesSome toLowerCase [''Display UI'', ''Handle user input'']) reqs))
            (map req_id (filter (matchesSome toLowerCase [''Business logic'', ''Data access'']) reqs))
            (map req_id reqs)],
     w\<lparr>requests := requests w @ [join [CHR 0x0A, CHR 0x0A] (map requirementText reqs)],
       files := snd (saveDiagrams projectsDir projectId
         [fallbackLevel1 (map req_id reqs),
          fallbackLevel2
            (map req_id (filter (matchesSome toLowerCase [''Display UI'', ''Handle user input'']) reqs))
            (map req_id (filter (matchesSome toLowerCase [''Business logic'', ''Data access'']) reqs))
            (map req_id reqs)] (files w))\<rparr>)"
  using assms
  by (simp add: generateC4Diagrams_def extractArchitecture_def Let_def fallback_build
      case_prod_beta save_fallback)

lemma generate_requests:
  assumes "t \<noteq> []"
  shows "requests (snd (generateC4Diagrams toLowerCase (Some t) answer projectsDir projectId reqs w)) =
         requests w @ [join [CHR 0x0A, CHR 0x0A] (map requirementText reqs)]"
  using assms
  by (cases answer)
    (auto simp add: generateC4Diagrams_def extractArchitecture_def Let_def
      split: sum.splits prod.splits option.splits)

text \<open>
  A parsed answer is used as it is. If it lacks the context object, its system object,
  one of its three arrays, the container array, the level-2 relationship array or the
  component object, the build throws a \<open>TypeError\<close> after the request, and nothing is
  written.
\<close>

lemma incomplete_answer_fails:
  assumes "t \<noteq> []" "structurallyIncomplete arch"
  shows "fst (extractArchitecture (Some t) (Parsed arch) reqs w) = Inr arch"
    and "generateC4Diagrams toLowerCase (Some t) (Parsed arch) projectsDir projectId reqs w =
           (Inl TypeError,
            w\<lparr>requests := requests w @ [join [CHR 0x0A, CHR 0x0A] (map requirementText reqs)]\<rparr>)"
  using assms incomplete_build [OF assms(2), where toLowerCase = toLowerCase and reqs = reqs]
  by (simp_all add: generateC4Diagrams_def extractArchitecture_def Let_def)

text \<open>
  A store can refuse a diagram: for the answer \<open>slash_response\<close> the level-3 diagram has
  the id \<open>level3-a/b\<close>, and generate() fails in \<open>saveDiagrams\<close>, after it has written the
  two diagrams before it.
\<close>

lemma save_failure_sample:
  "fst (generateC4Diagrams asciiToLowerCase (Some ''prompt'') (Parsed slash_response) ''projects'' ''p1''
          [] empty_world) = Inl WriteError"
  by code_simp

lemma traceRequirements_occurs:
  assumes "traceRequirements toLowerCase reqs (Some ks) = Inr rs"
  shows "rs = map req_id (filter (\<lambda>r. \<exists>k\<in>set ks. keywordOccurs toLowerCase r k) reqs)"
proof -
  have "matchesSome toLowerCase ks = (\<lambda>r. \<exists>k\<in>set ks. keywordOccurs toLowerCase r k)"
    by (rule ext) (simp add: matchesSome_iff)
  with assms show ?thesis by (simp add: traceRequirements_def)
qed

lemma traceRequirements_distinct:
  assumes "traceRequirements toLowerCase reqs kws = Inr rs" "distinct (map req_id reqs)"
  shows "distinct rs"
  using assms
  by (auto simp add: traceRequirements_def distinct_map_filter split: option.splits if_splits)

section \<open>The claims\<close>

subsection \<open>Fallback determinism\<close>

text \<open>
  C1 (as amended). If the prompt template is available and the extraction fails,
  generate() returns the two fallback diagrams whatever the requirements are: a level-1
  diagram with the system and the person \<open>user\<close>, a level-2 diagram with the containers
  \<open>webapp\<close> and \<open>api\<close> joined by \<open>Makes API calls\<close>, and no level-3 diagram. The
  requirements decide the requirement ids only: the system element and both diagrams
  list the id of every requirement, \<open>webapp\<close> lists the requirements whose title or
  description contains \<open>display ui\<close> or \<open>handle user input\<close>, and \<open>api\<close> those that contain
  \<open>business logic\<close> or \<open>data access\<close>, compared in lower case.
\<close>

theorem fallback_determinism:
  assumes "t \<noteq> []"
  shows "fst (generateC4Diagrams toLowerCase (Some t) Throws projectsDir projectId reqs w) =
     Inr [fallbackLevel1 (map req_id reqs),
          fallbackLevel2
            (map req_id
               (filter (\<lambda>r. keywordOccurs toLowerCase r ''Display UI'' \<or> keywordOccurs toLowerCase r ''Handle user input'')
                  reqs))
            (map req_id
               (filter (\<lambda>r. keywordOccurs toLowerCase r ''Business logic'' \<or> keywordOccurs toLowerCase r ''Data access'')
                  reqs))
            (map req_id reqs)]"
proof -
  have "matchesSome toLowerCase [a, b] = (\<lambda>r. keywordOccurs toLowerCase r a \<or> keywordOccurs toLowerCase r b)" for a b
    by (rule ext) (simp add: matchesSome_iff)
  then show ?thesis
    by (simp add: generate_fallback [OF assms])
qed

theorem fallback_determinism_counterexample:
  "map cont_responsibilities (the (level2_containers (getFallbackArchitecture [display_req]))) =
     [Some [''Display UI'', ''Handle user input''], Some [''Business logic'', ''Data access'']] \<and>
   elementRequirementsOf
     (fst (generateC4Diagrams asciiToLowerCase (Some ''prompt'') Throws ''projects'' ''p1'' [display_req] empty_world)) =
     [[(''main-system'', [''US-00002'']), (''user'', [])],
      [(''webapp'', [''US-00002'']), (''api'', [])]]"
  by code_simp

theorem fallback_determinism_witness:
  "''prompt'' \<noteq> [] \<and>
   fst (generateC4Diagrams asciiToLowerCase (Some ''prompt'') Throws ''projects'' ''p1'' [login_req] empty_world) =
     Inr [fallbackLevel1 [''US-00001''], fallbackLevel2 [] [] [''US-00001'']]"
proof -
  have p: "''prompt'' \<noteq> []" by simp
  have ids: "map req_id [login_req] = [''US-00001'']"
    and webapp: "map req_id
               (filter (\<lambda>r. keywordOccurs asciiToLowerCase r ''Display UI'' \<or> keywordOccurs asciiToLowerCase r ''Handle user input'')
                  [login_req]) = []"
    and api: "map req_id
               (filter (\<lambda>r. keywordOccurs asciiToLowerCase r ''Business logic'' \<or> keywordOccurs asciiToLowerCase r ''Data access'')
                  [login_req]) = []"
    by code_simp+
  from fallback_determinism [OF p, where toLowerCase = asciiToLowerCase
      and projectsDir = "''projects''" and projectId = "''p1''" and reqs = "[login_req]"
      and w = empty_world]
  have "fst (generateC4Diagrams asciiToLowerCase (Some ''prompt'') Throws ''projects'' ''p1'' [login_req] empty_world) =
     Inr [fallbackLevel1 [''US-00001''], fallbackLevel2 [] [] [''US-00001'']]"
    unfolding ids webapp api .
  with p show ?thesis by (intro conjI)
qed

subsection \<open>Extraction failures and incomplete answers\<close>

text \<open>
  C2. The claim asks that an answer which lacks the system object, the container array or
  another required array be replaced by the fallback architecture, as a failed extraction
  is, so that generate() never fails on it. The code replaces a failed extraction only.
  At the answer \<open>{}\<close>, which is also what \<open>extractArchitecture\<close> itself makes of an empty
  completion, it hands the object without fields to the builders: the level-1 builder
  throws a \<open>TypeError\<close> and generate() fails, where a failed extraction on the same
  requirement gives the two fallback diagrams.
\<close>

theorem incomplete_answer_not_replaced:
  "structurallyIncomplete empty_response \<and>
   fst (extractArchitecture (Some ''prompt'') (Parsed empty_response) [login_req] empty_world) =
     Inr empty_response \<and>
   buildLevel1Diagram empty_response [login_req] = Inl TypeError \<and>
   fst (generateC4Diagrams asciiToLowerCase (Some ''prompt'') (Parsed empty_response) ''projects'' ''p1''
          [login_req] empty_world) = Inl TypeError \<and>
   fst (generateC4Diagrams asciiToLowerCase (Some ''prompt'') Throws ''projects'' ''p1'' [login_req]
          empty_world) =
     Inr [fallbackLevel1 [''US-00001''], fallbackLevel2 [] [] [''US-00001'']]"
  by code_simp

subsection \<open>The traceability heuristic\<close>

text \<open>
  C3 (as amended). The heuristic associates a requirement with a container or a component
  exactly when one of the element's keywords, lower-cased by \<open>toLowerCase\<close>, is a substring
  of the title or of the description of the requirement, lower-cased the same way; a
  title or description that is a substring of the keyword does not count. The
  requirement ids of the element are the ids of the matching requirements in input
  order, one for each matching requirement; they are free of duplicates when the ids of
  the input requirements are. This holds whatever \<open>toLowerCase\<close> does to a character.
\<close>

theorem traceability_heuristic:
  assumes run: "buildAll toLowerCase arch reqs = Inr (d1 # d2 # d3s)"
  shows "(\<forall>conts i ks.
            level2_containers arch = Some conts \<longrightarrow> i < length conts \<longrightarrow>
            cont_responsibilities (conts ! i) = Some ks \<longrightarrow>
            elem_id (diag_elements d2 ! i) = cont_id (conts ! i) \<and>
            elem_requirements (diag_elements d2 ! i) =
              map req_id (filter (\<lambda>r. \<exists>k\<in>set ks. keywordOccurs toLowerCase r k) reqs)) \<and>
         (\<forall>d k j caps.
            d \<in> set d3s \<longrightarrow> diag_parentId d = Some k \<longrightarrow> j < length (componentsOf arch k) \<longrightarrow>
            comp_capabilities (componentsOf arch k ! j) = Some caps \<longrightarrow>
            elem_id (diag_elements d ! j) = comp_id (componentsOf arch k ! j) \<and>
            elem_requirements (diag_elements d ! j) =
              map req_id (filter (\<lambda>r. \<exists>k\<in>set caps. keywordOccurs toLowerCase r k) reqs)) \<and>
         (distinct (map req_id reqs) \<longrightarrow>
            (\<forall>d\<in>set (d1 # d2 # d3s). \<forall>e\<in>set (diag_elements d). distinct (elem_requirements e)))"
proof -
  from run have l1: "buildLevel1Diagram arch reqs = Inr d1"
    and l2: "buildLevel2Diagrams toLowerCase arch reqs = Inr [d2]"
    and l3: "buildLevel3Diagrams toLowerCase arch reqs = Inr d3s"
    by (auto elim: buildAll_InrE)
  from l2 obtain conts0 elems exts rels where
    conts0: "level2_containers arch = Some conts0"
    and elems: "list_all2 (\<lambda>c e. containerElement toLowerCase arch reqs c = Inr e) conts0 elems"
    and e2: "diag_elements d2 =
       elems @ map externalElement (filter (\<lambda>sys. isEndpoint rels (ext_id sys)) exts)"
    by (auto elim!: buildLevel2Diagrams_InrE)
  have a: "elem_id (diag_elements d2 ! i) = cont_id (conts ! i) \<and>
            elem_requirements (diag_elements d2 ! i) =
              map req_id (filter (\<lambda>r. \<exists>k\<in>set ks. keywordOccurs toLowerCase r k) reqs)"
    if "level2_containers arch = Some conts" "i < length conts"
      "cont_responsibilities (conts ! i) = Some ks" for conts i ks
  proof -
    from that(1) conts0 have eq: "conts0 = conts" by simp
    from elems that(2) have len: "i < length elems" and
      ce: "containerElement toLowerCase arch reqs (conts ! i) = Inr (elems ! i)"
      by (auto simp add: eq list_all2_conv_all_nth)
    from len e2 have nth: "diag_elements d2 ! i = elems ! i" by (simp add: nth_append)
    from ce that(3) show ?thesis unfolding nth
      by (auto elim!: containerElement_InrE dest: traceRequirements_occurs)
  qed
  have b: "elem_id (diag_elements d ! j) = comp_id (componentsOf arch k ! j) \<and>
            elem_requirements (diag_elements d ! j) =
              map req_id (filter (\<lambda>r. \<exists>k\<in>set caps. keywordOccurs toLowerCase r k) reqs)"
    if "d \<in> set d3s" "diag_parentId d = Some k" "j < length (componentsOf arch k)"
      "comp_capabilities (componentsOf arch k ! j) = Some caps" for d k j caps
  proof -
    from level3_diagram_shape [OF l3 that(1)] obtain comps k' cs c es rs where
      comps: "level3_components arch = Some comps" "object_get comps k' = Some cs"
      and d: "d = level3Diagram k' c es rs reqs"
      and es: "list_all2 (\<lambda>c e. componentElement toLowerCase reqs c = Inr e) cs es"
      by blast
    from d that(2) have "k' = k" by (simp add: level3Diagram_def)
    with comps have cs: "componentsOf arch k = cs" by (simp add: componentsOf_def)
    from es that(3) have ce: "componentElement toLowerCase reqs (cs ! j) = Inr (es ! j)"
      by (auto simp add: cs list_all2_conv_all_nth)
    have nth: "diag_elements d ! j = es ! j" by (simp add: d level3Diagram_def)
    from ce that(4) show ?thesis unfolding nth cs
      by (auto elim!: componentElement_InrE dest: traceRequirements_occurs)
  qed
  have c: "distinct (elem_requirements e)"
    if dist: "distinct (map req_id reqs)" and d: "d \<in> set (d1 # d2 # d3s)"
      and e: "e \<in> set (diag_elements d)" for d e
  proof -
    from d consider "d = d1" | "d = d2" | "d \<in> set d3s" by auto
    then show ?thesis
    proof cases
      case 1
      with l1 e dist show ?thesis
        by (auto elim!: buildLevel1Diagram_InrE simp add: personElement_def externalElement_def)
    next
      case 2
      with e e2 consider "e \<in> set elems" | x where "e = externalElement x" by auto
      then show ?thesis
      proof cases
        case 1
        from list_all2_in_set2 [OF elems 1] obtain c where "containerElement toLowerCase arch reqs c = Inr e"
          by blast
        with dist show ?thesis
          by (auto elim!: containerElement_InrE dest: traceRequirements_distinct)
      next
        case 2
        then show ?thesis by (simp add: externalElement_def)
      qed
    next
      case 3
      from level3_diagram_shape [OF l3 3] obtain k c es rs cs where
        "d = level3Diagram k c es rs reqs"
        and es: "list_all2 (\<lambda>c e. componentElement toLowerCase reqs c = Inr e) cs es"
        by blast
      with e have "e \<in> set es" by (simp add: level3Diagram_def)
      from list_all2_in_set2 [OF es this] obtain c where "componentElement toLowerCase reqs c = Inr e"
        by blast
      with dist show ?thesis
        by (auto elim!: componentElement_InrE dest: traceRequirements_distinct)
    qed
  qed
  from a b c show ?thesis by blast
qed

theorem traceability_heuristic_counterexample:
  "map cont_responsibilities (the (level2_containers page_response)) = [Some [''User login page'']] \<and>
   specAssociates asciiToLowerCase short_req ''User login page'' \<and>
   elementRequirementsOf (buildLevel2Diagrams asciiToLowerCase page_response [short_req]) =
     [[(''auth'', []), (''stripe'', [])]] \<and>
   elementRequirementsOf (buildLevel2Diagrams asciiToLowerCase sample_response [login_req, login_req]) =
     [[(''auth'', [''US-00001'', ''US-00001'']), (''shop'', []), (''stripe'', [])]]"
  by code_simp

theorem traceability_heuristic_witness:
  "buildAll asciiToLowerCase sample_response [login_req] = Inr [sample_level1, sample_level2, sample_level3] \<and>
   keywordOccurs asciiToLowerCase login_req ''login'' \<and>
   elem_id (diag_elements sample_level2 ! 0) = ''auth'' \<and>
   elem_requirements (diag_elements sample_level2 ! 0) = [''US-00001''] \<and>
   elem_id (diag_elements sample_level3 ! 1) = ''auth-api'' \<and>
   elem_requirements (diag_elements sample_level3 ! 1) = []"
proof -
  let ?conts = "[plain_container ''auth'' [''login''], plain_container ''shop'' [''checkout'']]"
  note t = traceability_heuristic [OF sample_run]
  have conts: "level2_containers sample_response = Some ?conts"
    and i: "0 < length ?conts"
    and ks: "cont_responsibilities (?conts ! 0) = Some [''login'']"
    by code_simp+
  have v2: "cont_id (?conts ! 0) = ''auth''"
    "map req_id (filter (\<lambda>r. \<exists>k\<in>set [''login'']. keywordOccurs asciiToLowerCase r k) [login_req]) = [''US-00001'']"
    by code_simp+
  from t [THEN conjunct1, rule_format, OF conts i ks]
  have a: "elem_id (diag_elements sample_level2 ! 0) = ''auth'' \<and>
      elem_requirements (diag_elements sample_level2 ! 0) = [''US-00001'']"
    unfolding v2 .
  have d: "sample_level3 \<in> set [sample_level3]" by simp
  have par: "diag_parentId sample_level3 = Some ''auth''"
    and j: "1 < length (componentsOf sample_response ''auth'')"
    and caps: "comp_capabilities (componentsOf sample_response ''auth'' ! 1) = Some [''token'']"
    by code_simp+
  have v3: "comp_id (componentsOf sample_response ''auth'' ! 1) = ''auth-api''"
    "map req_id (filter (\<lambda>r. \<exists>k\<in>set [''token'']. keywordOccurs asciiToLowerCase r k) [login_req]) = []"
    by code_simp+
  from t [THEN conjunct2, THEN conjunct1, rule_format, OF d par j caps]
  have b: "elem_id (diag_elements sample_level3 ! 1) = ''auth-api'' \<and>
      elem_requirements (diag_elements sample_level3 ! 1) = []"
    unfolding v3 .
  have k: "keywordOccurs asciiToLowerCase login_req ''login''" by code_simp
  from sample_run k a b show ?thesis by (elim conjE) (intro conjI)
qed

subsection \<open>The requirement union law\<close>

text \<open>
  C4 (as amended). The requirement ids of the level-1 diagram and of every level-3
  diagram are, as a set, the union of the requirement ids of its elements. The level-2
  diagram lists the id of every input requirement, which contains that union.
\<close>

theorem requirement_union_law:
  assumes run: "buildAll toLowerCase arch reqs = Inr (d1 # d2 # d3s)"
  shows "set (diag_requirementReferences d1) = elementRequirementUnion d1 \<and>
         (\<forall>d\<in>set d3s. set (diag_requirementReferences d) = elementRequirementUnion d) \<and>
         diag_requirementReferences d2 = map req_id reqs \<and>
         elementRequirementUnion d2 \<subseteq> set (diag_requirementReferences d2)"
proof -
  from run have l1: "buildLevel1Diagram arch reqs = Inr d1"
    and l2: "buildLevel2Diagrams toLowerCase arch reqs = Inr [d2]"
    and l3: "buildLevel3Diagrams toLowerCase arch reqs = Inr d3s"
    by (auto elim: buildAll_InrE)
  from l1 have a: "set (diag_requirementReferences d1) = elementRequirementUnion d1"
    by (rule buildLevel1Diagram_InrE)
      (simp add: elementRequirementUnion_def personElement_def externalElement_def)
  have b: "set (diag_requirementReferences d) = elementRequirementUnion d" if "d \<in> set d3s" for d
  proof -
    from level3_diagram_shape [OF l3 that] obtain k c es rs cs where
      d: "d = level3Diagram k c es rs reqs"
      and es: "list_all2 (\<lambda>c e. componentElement toLowerCase reqs c = Inr e) cs es"
      by blast
    show ?thesis unfolding d
      by (rule level3Diagram_union) (rule componentElements_requirements [OF es])
  qed
  from l2 obtain conts elems exts rels where
    elems: "list_all2 (\<lambda>c e. containerElement toLowerCase arch reqs c = Inr e) conts elems"
    and d2: "diag_elements d2 =
       elems @ map externalElement (filter (\<lambda>sys. isEndpoint rels (ext_id sys)) exts)"
    and refs: "diag_requirementReferences d2 = map req_id reqs"
    by (auto elim!: buildLevel2Diagrams_InrE)
  from containerElements_requirements [OF elems]
  have "elementRequirementUnion d2 \<subseteq> req_id ` set reqs"
    by (auto simp add: elementRequirementUnion_def d2 externalElement_def)
  with a b refs show ?thesis by simp
qed

theorem requirement_union_law_counterexample:
  "fst (generateC4Diagrams asciiToLowerCase (Some ''prompt'') Throws ''projects'' ''p1'' [login_req] empty_world) =
     Inr [fallbackLevel1 [''US-00001''], fallbackLevel2 [] [] [''US-00001'']] \<and>
   diag_requirementReferences (fallbackLevel2 [] [] [''US-00001'']) = [''US-00001''] \<and>
   elementRequirementUnion (fallbackLevel2 [] [] [''US-00001'']) = {}"
  by code_simp

theorem requirement_union_law_witness:
  "buildAll asciiToLowerCase sample_response [login_req] = Inr [sample_level1, sample_level2, sample_level3] \<and>
   set (diag_requirementReferences sample_level1) = elementRequirementUnion sample_level1 \<and>
   set (diag_requirementReferences sample_level3) = elementRequirementUnion sample_level3 \<and>
   diag_requirementReferences sample_level2 = map req_id [login_req] \<and>
   elementRequirementUnion sample_level2 \<subseteq> set (diag_requirementReferences sample_level2)"
proof -
  note t = requirement_union_law [OF sample_run]
  have "sample_level3 \<in> set [sample_level3]" by simp
  with t have "set (diag_requirementReferences sample_level3) = elementRequirementUnion sample_level3"
    by (elim conjE) (erule bspec)
  with t sample_run show ?thesis by (elim conjE) (intro conjI)
qed

subsection \<open>Relationship closure\<close>

text \<open>
  C5 (as amended). Every relationship of the answer is emitted at its level and none is
  dropped (level 1 rewrites the target \<open>system\<close> to \<open>main-system\<close>). So a diagram has both
  ends of every relationship among its element ids exactly when every end that the answer
  names is declared at that level: the system, a person or an external system at level 1,
  a container or an external system at level 2, a component of the container at level 3.
\<close>

theorem relationship_closure:
  assumes run: "buildAll toLowerCase arch reqs = Inr (d1 # d2 # d3s)"
    and ctx: "level1_context arch = Some ctx" "ctx_people ctx = Some people"
      "ctx_external_systems ctx = Some exts" "ctx_relationships ctx = Some rels1"
    and lv2: "level2_containers arch = Some conts" "level2_relationships arch = Some rels2"
  shows "diag_relationships d1 = map level1Relationship rels1 \<and>
         diag_relationships d2 = map level2Relationship rels2 \<and>
         (relationshipsClosed d1 \<longleftrightarrow>
            (\<forall>r\<in>set rels1.
               rel_from r \<in> insert ''main-system'' (person_id ` set people \<union> ext_id ` set exts) \<and>
               (rel_to r = ''system'' \<or>
                rel_to r \<in> insert ''main-system'' (person_id ` set people \<union> ext_id ` set exts)))) \<and>
         (relationshipsClosed d2 \<longleftrightarrow>
            (\<forall>r\<in>set rels2.
               rel_from r \<in> cont_id ` set conts \<union> ext_id ` set exts \<and>
               rel_to r \<in> cont_id ` set conts \<union> ext_id ` set exts)) \<and>
         (\<forall>d\<in>set d3s. \<exists>k.
            diag_parentId d = Some k \<and>
            diag_relationships d = map level3Relationship (level3RelationshipsOf arch k) \<and>
            (relationshipsClosed d \<longleftrightarrow>
               (\<forall>r\<in>set (level3RelationshipsOf arch k).
                  rel_from r \<in> comp_id ` set (componentsOf arch k) \<and>
                  rel_to r \<in> comp_id ` set (componentsOf arch k))))"
proof -
  from run have l1: "buildLevel1Diagram arch reqs = Inr d1"
    and l2: "buildLevel2Diagrams toLowerCase arch reqs = Inr [d2]"
    and l3: "buildLevel3Diagrams toLowerCase arch reqs = Inr d3s"
    by (auto elim: buildAll_InrE)
  from l1 ctx obtain e0 where r1: "diag_relationships d1 = map level1Relationship rels1"
    and e1: "diag_elements d1 = e0 # map personElement people @ map externalElement exts"
      "elem_id e0 = system_id"
    by (auto elim!: buildLevel1Diagram_InrE)
  have "elementIds d1 = ''main-system'' # map person_id people @ map ext_id exts"
    by (simp add: elementIds_def e1 comp_def personElement_id externalElement_id system_id_def)
  then have ids1: "set (elementIds d1) =
      insert ''main-system'' (person_id ` set people \<union> ext_id ` set exts)"
    by simp
  have c1: "relationshipsClosed d1 \<longleftrightarrow>
            (\<forall>r\<in>set rels1.
               rel_from r \<in> insert ''main-system'' (person_id ` set people \<union> ext_id ` set exts) \<and>
               (rel_to r = ''system'' \<or>
                rel_to r \<in> insert ''main-system'' (person_id ` set people \<union> ext_id ` set exts)))"
    unfolding relationshipsClosed_def ids1 r1
    by (auto simp add: list_all_iff level1Relationship_def system_id_def)
  from l2 ctx lv2 obtain elems where
    elems: "list_all2 (\<lambda>c e. containerElement toLowerCase arch reqs c = Inr e) conts elems"
    and e2: "diag_elements d2 =
       elems @ map externalElement (filter (\<lambda>sys. isEndpoint rels2 (ext_id sys)) exts)"
    and r2: "diag_relationships d2 = map level2Relationship rels2"
    by (auto elim!: buildLevel2Diagrams_InrE)
  from containerElements_ids [OF elems]
  have "elementIds d2 =
      map cont_id conts @ map ext_id (filter (\<lambda>sys. isEndpoint rels2 (ext_id sys)) exts)"
    by (simp add: elementIds_def e2 comp_def externalElement_id)
  then have ids2: "set (elementIds d2) =
      cont_id ` set conts \<union> ext_id ` {s \<in> set exts. isEndpoint rels2 (ext_id s)}"
    by simp
  have c2: "relationshipsClosed d2 \<longleftrightarrow>
            (\<forall>r\<in>set rels2.
               rel_from r \<in> cont_id ` set conts \<union> ext_id ` set exts \<and>
               rel_to r \<in> cont_id ` set conts \<union> ext_id ` set exts)"
    unfolding relationshipsClosed_def ids2 r2
    by (auto simp add: list_all_iff level2Relationship_def isEndpoint_iff)
  have c3: "\<exists>k. diag_parentId d = Some k \<and>
            diag_relationships d = map level3Relationship (level3RelationshipsOf arch k) \<and>
            (relationshipsClosed d \<longleftrightarrow>
               (\<forall>r\<in>set (level3RelationshipsOf arch k).
                  rel_from r \<in> comp_id ` set (componentsOf arch k) \<and>
                  rel_to r \<in> comp_id ` set (componentsOf arch k)))"
    if "d \<in> set d3s" for d
  proof -
    from level3_diagram_shape [OF l3 that] obtain comps k cs c es rbc where
      comps: "level3_components arch = Some comps" "object_get comps k = Some cs"
      and rbc: "level3_relationships arch = Some rbc"
      and d: "d = level3Diagram k c es
             (map level3Relationship (case object_get rbc k of None \<Rightarrow> [] | Some rs \<Rightarrow> rs)) reqs"
      and es: "list_all2 (\<lambda>c e. componentElement toLowerCase reqs c = Inr e) cs es"
      by blast
    from comps have cs: "componentsOf arch k = cs" by (simp add: componentsOf_def)
    from rbc have rs: "(case object_get rbc k of None \<Rightarrow> [] | Some rs \<Rightarrow> rs) = level3RelationshipsOf arch k"
      by (simp add: level3RelationshipsOf_def)
    have d': "d = level3Diagram k c es (map level3Relationship (level3RelationshipsOf arch k)) reqs"
      by (simp only: d rs)
    have p: "diag_parentId d = Some k"
      and r: "diag_relationships d = map level3Relationship (level3RelationshipsOf arch k)"
      by (simp_all add: d' level3Diagram_def)
    have cl: "relationshipsClosed d \<longleftrightarrow>
               (\<forall>r\<in>set (level3RelationshipsOf arch k).
                  rel_from r \<in> comp_id ` set (componentsOf arch k) \<and>
                  rel_to r \<in> comp_id ` set (componentsOf arch k))"
      unfolding d' cs by (rule level3Diagram_closed [OF componentElements_ids [OF es]])
    from p r cl show ?thesis by blast
  qed
  from r1 r2 c1 c2 c3 show ?thesis by blast
qed

theorem relationship_closure_counterexample:
  "fst (generateC4Diagrams asciiToLowerCase (Some ''prompt'') (Parsed dangling_response) ''projects'' ''p1''
          [login_req] empty_world) =
     Inr [sample_level1, dangling_level2, sample_level3] \<and>
   map c4_to (diag_relationships dangling_level2) = [''nowhere''] \<and>
   elementIds dangling_level2 = [''auth'', ''shop''] \<and>
   \<not> relationshipsClosed dangling_level2"
  by code_simp

theorem relationship_closure_witness:
  "buildAll asciiToLowerCase sample_response [login_req] = Inr [sample_level1, sample_level2, sample_level3] \<and>
   relationshipsClosed sample_level1 \<and> relationshipsClosed sample_level2 \<and>
   relationshipsClosed sample_level3 \<and>
   length (diag_relationships sample_level2) = 2"
proof -
  let ?people = "[\<lparr>person_id = ''customer'', person_name = ''Customer'', person_role = ''Buyer'',
             person_description = ''Buys goods'', person_interactions = []\<rparr>]"
  let ?exts = "[plain_external ''stripe'', plain_external ''smtp'']"
  let ?rels1 = "[plain_rel ''customer'' ''system'' ''Buys'', plain_rel ''main-system'' ''smtp'' ''Sends mail'']"
  let ?conts = "[plain_container ''auth'' [''login''], plain_container ''shop'' [''checkout'']]"
  let ?rels2 = "[plain_rel ''shop'' ''auth'' ''Checks session'', plain_rel ''shop'' ''stripe'' ''Charges'']"
  have ctx: "level1_context sample_response = Some (the (level1_context sample_response))"
    "ctx_people (the (level1_context sample_response)) = Some ?people"
    "ctx_external_systems (the (level1_context sample_response)) = Some ?exts"
    "ctx_relationships (the (level1_context sample_response)) = Some ?rels1"
    by code_simp+
  have lv2: "level2_containers sample_response = Some ?conts"
    "level2_relationships sample_response = Some ?rels2"
    by code_simp+
  note t = relationship_closure [OF sample_run ctx lv2]
  have h1: "\<forall>r\<in>set ?rels1.
               rel_from r \<in> insert ''main-system'' (person_id ` set ?people \<union> ext_id ` set ?exts) \<and>
               (rel_to r = ''system'' \<or>
                rel_to r \<in> insert ''main-system'' (person_id ` set ?people \<union> ext_id ` set ?exts))"
    by code_simp
  have h2: "\<forall>r\<in>set ?rels2.
               rel_from r \<in> cont_id ` set ?conts \<union> ext_id ` set ?exts \<and>
               rel_to r \<in> cont_id ` set ?conts \<union> ext_id ` set ?exts"
    by code_simp
  have a: "relationshipsClosed sample_level1"
    unfolding t [THEN conjunct2, THEN conjunct2, THEN conjunct1] by (rule h1)
  have b: "relationshipsClosed sample_level2"
    unfolding t [THEN conjunct2, THEN conjunct2, THEN conjunct2, THEN conjunct1] by (rule h2)
  have c: "relationshipsClosed sample_level3" by code_simp
  have "diag_relationships sample_level2 = map level2Relationship ?rels2"
    by (rule t [THEN conjunct2, THEN conjunct1])
  then have d: "length (diag_relationships sample_level2) = 2" by simp
  from sample_run a b c d show ?thesis by (intro conjI)
qed

subsection \<open>Loading a store with missing bodies\<close>

text \<open>
  C6 (as amended). When the directory and the index exist, a load reads the bodies of the
  indexed ids whose files exist, in index order, and skips an indexed id whose file is
  missing without any error. If every indexed body file that exists holds a JSON document
  the load succeeds and returns exactly those documents, however many bodies are missing.
\<close>

theorem load_skips_missing_bodies:
  assumes dir: "existsSync fs (c4Dir projectsDir projectId)"
    and index: "fs (path_join (c4Dir projectsDir projectId) ''index.json'') =
      Some (File (Some (IndexDoc refs)))"
  shows "getDiagrams fs projectsDir projectId =
           map_res (readJson fs)
             (filter (existsSync fs)
                (map (\<lambda>r. path_join (c4Dir projectsDir projectId) (idx_id r @ ''.json'')) refs)) \<and>
         ((\<forall>r\<in>set refs.
             existsSync fs (path_join (c4Dir projectsDir projectId) (idx_id r @ ''.json'')) \<longrightarrow>
             storedDocument fs (path_join (c4Dir projectsDir projectId) (idx_id r @ ''.json'')) \<noteq> None) \<longrightarrow>
          getDiagrams fs projectsDir projectId =
            Inr (List.map_filter
                   (\<lambda>r. storedDocument fs
                          (path_join (c4Dir projectsDir projectId) (idx_id r @ ''.json'')))
                   refs))"
proof -
  from dir index have "getDiagrams fs projectsDir projectId =
      loadBodies fs (c4Dir projectsDir projectId) refs"
    by (auto simp add: getDiagrams_def Let_def existsSync_def readJson_def bind_res_def)
  then show ?thesis
    by (auto simp add: loadBodies_eq [symmetric] intro: loadBodies_stored)
qed

theorem load_skips_missing_bodies_counterexample:
  "partial_store ''projects/p1/c4-diagrams/index.json'' =
     Some (File (Some (IndexDoc [indexEntry (fallbackLevel1 []), indexEntry (fallbackLevel2 [] [] [])]))) \<and>
   idx_id (indexEntry (fallbackLevel2 [] [] [])) = ''level2-containers'' \<and>
   \<not> existsSync partial_store ''projects/p1/c4-diagrams/level2-containers.json'' \<and>
   getDiagrams partial_store ''projects'' ''p1'' = Inr [DiagramDoc (fallbackLevel1 [])]"
  by code_simp

theorem load_skips_missing_bodies_witness:
  "existsSync partial_store (c4Dir ''projects'' ''p1'') \<and>
   getDiagrams partial_store ''projects'' ''p1'' =
     map_res (readJson partial_store) [''projects/p1/c4-diagrams/level1-context.json''] \<and>
   getDiagrams partial_store ''projects'' ''p1'' = Inr [DiagramDoc (fallbackLevel1 [])]"
proof -
  let ?refs = "[indexEntry (fallbackLevel1 []), indexEntry (fallbackLevel2 [] [] [])]"
  have dir: "existsSync partial_store (c4Dir ''projects'' ''p1'')"
    by code_simp
  have index: "partial_store (path_join (c4Dir ''projects'' ''p1'') ''index.json'') =
      Some (File (Some (IndexDoc ?refs)))"
    by code_simp
  have paths: "filter (existsSync partial_store)
                (map (\<lambda>r. path_join (c4Dir ''projects'' ''p1'') (idx_id r @ ''.json'')) ?refs) =
      [''projects/p1/c4-diagrams/level1-context.json'']"
    by code_simp
  have docs: "map_res (readJson partial_store) [''projects/p1/c4-diagrams/level1-context.json''] =
      Inr [DiagramDoc (fallbackLevel1 [])]"
    by code_simp
  from load_skips_missing_bodies [OF dir index, THEN conjunct1]
  have a: "getDiagrams partial_store ''projects'' ''p1'' =
     map_res (readJson partial_store) [''projects/p1/c4-diagrams/level1-context.json'']"
    unfolding paths .
  then have b: "getDiagrams partial_store ''projects'' ''p1'' = Inr [DiagramDoc (fallbackLevel1 [])]"
    unfolding docs .
  from dir a b show ?thesis by (intro conjI)
qed

subsection \<open>Empty requirement lists\<close>

text \<open>
  C7 (as amended). A call of generate() with an empty requirement list is not rejected:
  when the prompt template is available it issues one extraction request, whose
  requirement text is empty, whatever the answer will be; if the extraction fails it
  returns the two fallback diagrams, with no requirement ids, and has written them and
  their index to the store, so that a load of the project returns them.
\<close>

theorem empty_requirements_not_rejected:
  assumes "t \<noteq> []"
  shows "requests (snd (generateC4Diagrams toLowerCase (Some t) answer projectsDir projectId [] w)) =
           requests w @ [[]] \<and>
         fst (generateC4Diagrams toLowerCase (Some t) Throws projectsDir projectId [] w) =
           Inr [fallbackLevel1 [], fallbackLevel2 [] [] []] \<and>
         getDiagrams
           (files (snd (generateC4Diagrams toLowerCase (Some t) Throws projectsDir projectId [] w)))
           projectsDir projectId =
           Inr [DiagramDoc (fallbackLevel1 []), DiagramDoc (fallbackLevel2 [] [] [])]"
proof -
  have a: "requests (snd (generateC4Diagrams toLowerCase (Some t) answer projectsDir projectId [] w)) =
           requests w @ [[]]"
    by (simp add: generate_requests [OF assms])
  have b: "fst (generateC4Diagrams toLowerCase (Some t) Throws projectsDir projectId [] w) =
           Inr [fallbackLevel1 [], fallbackLevel2 [] [] []]"
    by (simp add: generate_fallback [OF assms])
  have c: "getDiagrams
           (files (snd (generateC4Diagrams toLowerCase (Some t) Throws projectsDir projectId [] w)))
           projectsDir projectId =
           Inr [DiagramDoc (fallbackLevel1 []), DiagramDoc (fallbackLevel2 [] [] [])]"
    by (simp add: generate_fallback [OF assms] load_saved_fallback)
  from a b c show ?thesis by (intro conjI)
qed

theorem empty_requirements_not_rejected_counterexample:
  "fst (generateC4Diagrams asciiToLowerCase (Some ''prompt'') Throws ''projects'' ''p1'' [] empty_world) =
     Inr [fallbackLevel1 [], fallbackLevel2 [] [] []] \<and>
   requests (snd (generateC4Diagrams asciiToLowerCase (Some ''prompt'') Throws ''projects'' ''p1'' [] empty_world)) =
     [[]] \<and>
   getDiagrams
     (files (snd (generateC4Diagrams asciiToLowerCase (Some ''prompt'') Throws ''projects'' ''p1'' [] empty_world)))
     ''projects'' ''p1'' =
     Inr [DiagramDoc (fallbackLevel1 []), DiagramDoc (fallbackLevel2 [] [] [])]"
  by code_simp

theorem empty_requirements_not_rejected_witness:
  "''prompt'' \<noteq> [] \<and>
   requests (snd (generateC4Diagrams asciiToLowerCase (Some ''prompt'') (Parsed sample_response) ''data''
      ''shop'' [] empty_world)) = [[]] \<and>
   fst (generateC4Diagrams asciiToLowerCase (Some ''prompt'') Throws ''data'' ''shop'' [] empty_world) =
     Inr [fallbackLevel1 [], fallbackLevel2 [] [] []] \<and>
   getDiagrams
     (files (snd (generateC4Diagrams asciiToLowerCase (Some ''prompt'') Throws ''data'' ''shop'' []
        empty_world)))
     ''data'' ''shop'' =
     Inr [DiagramDoc (fallbackLevel1 []), DiagramDoc (fallbackLevel2 [] [] [])]"
proof -
  have p: "''prompt'' \<noteq> []" by simp
  note t = empty_requirements_not_rejected [OF p, where toLowerCase = asciiToLowerCase
      and answer = "Parsed sample_response" and projectsDir = "''data''" and projectId = "''shop''"
      and w = empty_world]
  have w: "requests empty_world @ [[]] = [[]]" by code_simp
  from t have a: "requests (snd (generateC4Diagrams asciiToLowerCase (Some ''prompt'')
      (Parsed sample_response) ''data'' ''shop'' [] empty_world)) = [[]]"
    unfolding w by (rule conjunct1)
  from t have b: "fst (generateC4Diagrams asciiToLowerCase (Some ''prompt'') Throws ''data'' ''shop'' []
      empty_world) = Inr [fallbackLevel1 [], fallbackLevel2 [] [] []]"
    by (elim conjE)
  from t have c: "getDiagrams
     (files (snd (generateC4Diagrams asciiToLowerCase (Some ''prompt'') Throws ''data'' ''shop'' []
        empty_world)))
     ''data'' ''shop'' =
     Inr [DiagramDoc (fallbackLevel1 []), DiagramDoc (fallbackLevel2 [] [] [])]"
    by (elim conjE)
  from p a b c show ?thesis by (intro conjI)
qed

subsection \<open>Child and parent consistency\<close>

text \<open>
  C8. For every container element of the level-2 diagram whose list of children is not
  empty, the level-3 diagrams of the same run hold exactly one diagram whose parent is
  that container, and the ids of its elements are the children of the container, in the
  same order.
\<close>

theorem child_parent_consistency:
  assumes run: "buildAll toLowerCase arch reqs = Inr (d1 # d2 # d3s)"
    and e: "e \<in> set (diag_elements d2)" "elem_type e = ContainerT"
    and children: "elem_children e = Some cs" "cs \<noteq> []"
  shows "\<exists>d3. filter (\<lambda>d. diag_parentId d = Some (elem_id e)) d3s = [d3] \<and>
              diag_level d3 = 3 \<and> map elem_id (diag_elements d3) = cs"
proof -
  from run have l2: "buildLevel2Diagrams toLowerCase arch reqs = Inr [d2]"
    and l3: "buildLevel3Diagrams toLowerCase arch reqs = Inr d3s"
    by (auto elim: buildAll_InrE)
  from l2 obtain conts elems exts rels where
    conts: "level2_containers arch = Some conts"
    and elems: "list_all2 (\<lambda>c e. containerElement toLowerCase arch reqs c = Inr e) conts elems"
    and d2: "diag_elements d2 =
       elems @ map externalElement (filter (\<lambda>sys. isEndpoint rels (ext_id sys)) exts)"
    by (auto elim: buildLevel2Diagrams_InrE)
  from e d2 have "e \<in> set elems" by (auto simp add: externalElement_def)
  with elems obtain c where c: "c \<in> set conts" "containerElement toLowerCase arch reqs c = Inr e"
    by (auto dest: list_all2_in_set2)
  from c(2) obtain comps where comps: "level3_components arch = Some comps"
    and ide: "elem_id e = cont_id c"
    and ch: "elem_children e =
      Some (case object_get comps (cont_id c) of None \<Rightarrow> [] | Some cs \<Rightarrow> map comp_id cs)"
    by (auto elim: containerElement_InrE)
  from ch children obtain ccs where ccs: "object_get comps (cont_id c) = Some ccs"
    "map comp_id ccs = cs" "ccs \<noteq> []"
    by (auto split: option.splits)
  let ?k = "cont_id c"
  from ccs(1) have key: "?k \<in> set (object_keys comps)"
    by (auto simp add: object_get_def object_keys_def dest: map_of_SomeD intro: rev_image_eqI)
  from l3 comps obtain pushed where
    pushed: "list_all2 (\<lambda>k p. level3ForContainer toLowerCase arch reqs comps k = Inr p) (object_keys comps) pushed"
    and d3s: "d3s = concat pushed"
    by (auto elim: buildLevel3Diagrams_InrE)
  from pushed key obtain pk where pk: "level3ForContainer toLowerCase arch reqs comps ?k = Inr pk"
    by (auto simp add: list_all2_conv_all_nth in_set_conv_nth)
  from c(1) conts have "?k \<in> set (declaredContainerIds arch)"
    by (simp add: declaredContainerIds_def)
  with ccs have "hasComponents comps ?k \<and> ?k \<in> set (declaredContainerIds arch)"
    by (simp add: hasComponents_def)
  with level3ForContainer_cases [OF pk] ccs(1) obtain c' es rels3 where
    pk_eq: "pk = [level3Diagram ?k c' es rels3 reqs]"
    and es: "list_all2 (\<lambda>c e. componentElement toLowerCase reqs c = Inr e) ccs es"
    by auto
  have "distinct (object_keys comps)" by (simp add: object_keys_def)
  from pushed_filter [OF pushed level3ForContainer_parent this key pk]
  have "filter (\<lambda>d. diag_parentId d = Some ?k) d3s = pk" by (simp add: d3s)
  moreover from componentElements_ids [OF es] ccs(2)
  have "map elem_id (diag_elements (level3Diagram ?k c' es rels3 reqs)) = cs"
    by (simp add: level3Diagram_def)
  moreover have "diag_level (level3Diagram ?k c' es rels3 reqs) = 3"
    by (simp add: level3Diagram_def)
  ultimately show ?thesis using pk_eq ide by simp
qed

theorem child_parent_consistency_witness:
  "buildAll asciiToLowerCase sample_response [login_req] = Inr [sample_level1, sample_level2, sample_level3] \<and>
   sample_auth_element \<in> set (diag_elements sample_level2) \<and>
   elem_type sample_auth_element = ContainerT \<and>
   elem_children sample_auth_element = Some [''login-ui'', ''auth-api''] \<and>
   filter (\<lambda>d. diag_parentId d = Some (elem_id sample_auth_element)) [sample_level3] = [sample_level3] \<and>
   map elem_id (diag_elements sample_level3) = [''login-ui'', ''auth-api'']"
proof -
  have e: "sample_auth_element \<in> set (diag_elements sample_level2)"
    "elem_type sample_auth_element = ContainerT"
    "elem_children sample_auth_element = Some [''login-ui'', ''auth-api'']"
    "[''login-ui'', ''auth-api''] \<noteq> []"
    by (simp_all add: sample_level2_def sample_auth_element_def plain_element_def)
  have f: "filter (\<lambda>d. diag_parentId d = Some (elem_id sample_auth_element)) [sample_level3] =
      [sample_level3]"
    by code_simp
  from child_parent_consistency [OF sample_run e] obtain d3 where
    "filter (\<lambda>d. diag_parentId d = Some (elem_id sample_auth_element)) [sample_level3] = [d3]"
    "map elem_id (diag_elements d3) = [''login-ui'', ''auth-api'']"
    by (elim exE conjE)
  with f have "map elem_id (diag_elements sample_level3) = [''login-ui'', ''auth-api'']"
    by (simp only: list.inject)
  with sample_run e(1,2,3) f show ?thesis by (intro conjI)
qed

subsection \<open>External systems at level 2\<close>

text \<open>
  C9. The element of an external system is in the level-2 diagram if and only if the id
  of the system is the \<open>from\<close> or the \<open>to\<close> of a level-2 relationship; the same holds for
  "some element of type system with that id". Every external system has its element in
  the level-1 diagram, and a level-3 diagram holds elements of type component only, so
  an external system that is no end of a level-2 relationship appears at level 1 only.
\<close>

theorem external_system_inclusion:
  assumes run: "buildAll toLowerCase arch reqs = Inr (d1 # d2 # d3s)"
    and ctx: "level1_context arch = Some ctx" "ctx_external_systems ctx = Some exts"
    and rels: "level2_relationships arch = Some rels"
    and sys: "sys \<in> set exts"
  shows "(externalElement sys \<in> set (diag_elements d2) \<longleftrightarrow>
            (\<exists>r\<in>set rels. rel_from r = ext_id sys \<or> rel_to r = ext_id sys)) \<and>
         ((\<exists>e\<in>set (diag_elements d2). elem_type e = SystemT \<and> elem_id e = ext_id sys) \<longleftrightarrow>
            (\<exists>r\<in>set rels. rel_from r = ext_id sys \<or> rel_to r = ext_id sys)) \<and>
         externalElement sys \<in> set (diag_elements d1) \<and>
         (\<forall>d\<in>set d3s. \<forall>e\<in>set (diag_elements d). elem_type e = ComponentT)"
proof -
  from run have l1: "buildLevel1Diagram arch reqs = Inr d1"
    and l2: "buildLevel2Diagrams toLowerCase arch reqs = Inr [d2]"
    and l3: "buildLevel3Diagrams toLowerCase arch reqs = Inr d3s"
    by (auto elim: buildAll_InrE)
  from l1 ctx sys have in1: "externalElement sys \<in> set (diag_elements d1)"
    by (auto elim!: buildLevel1Diagram_InrE)
  from l2 ctx rels obtain conts elems where
    elems: "list_all2 (\<lambda>c e. containerElement toLowerCase arch reqs c = Inr e) conts elems"
    and d2: "diag_elements d2 =
       elems @ map externalElement (filter (\<lambda>sys. isEndpoint rels (ext_id sys)) exts)"
    by (auto elim!: buildLevel2Diagrams_InrE)
  have cont: "elem_type e = ContainerT" if "e \<in> set elems" for e
    using elems that by (rule containerElements_type)
  have ext: "elem_type (externalElement x) = SystemT" "elem_id (externalElement x) = ext_id x" for x
    by (simp_all add: externalElement_def)
  have a: "externalElement sys \<in> set (diag_elements d2) \<longleftrightarrow> isEndpoint rels (ext_id sys)"
  proof
    assume "externalElement sys \<in> set (diag_elements d2)"
    with d2 cont ext(1) obtain x where "isEndpoint rels (ext_id x)" "externalElement x = externalElement sys"
      by fastforce
    with ext(2) [of x] ext(2) [of sys] show "isEndpoint rels (ext_id sys)" by simp
  next
    assume "isEndpoint rels (ext_id sys)"
    with sys d2 show "externalElement sys \<in> set (diag_elements d2)" by simp
  qed
  have b: "(\<exists>e\<in>set (diag_elements d2). elem_type e = SystemT \<and> elem_id e = ext_id sys) \<longleftrightarrow>
      isEndpoint rels (ext_id sys)"
  proof
    assume "\<exists>e\<in>set (diag_elements d2). elem_type e = SystemT \<and> elem_id e = ext_id sys"
    then obtain e where e: "e \<in> set (diag_elements d2)" "elem_type e = SystemT" "elem_id e = ext_id sys"
      by blast
    from e(1,2) d2 cont obtain x where "isEndpoint rels (ext_id x)" "e = externalElement x"
      by fastforce
    with e(3) ext(2) [of x] show "isEndpoint rels (ext_id sys)" by simp
  next
    assume "isEndpoint rels (ext_id sys)"
    with a ext [of sys] show "\<exists>e\<in>set (diag_elements d2). elem_type e = SystemT \<and> elem_id e = ext_id sys"
      by blast
  qed
  have c: "elem_type e = ComponentT" if "d \<in> set d3s" "e \<in> set (diag_elements d)" for d e
  proof -
    from level3_diagram_shape [OF l3 that(1)] obtain k c es rs cs where
      "d = level3Diagram k c es rs reqs" "list_all2 (\<lambda>c e. componentElement toLowerCase reqs c = Inr e) cs es"
      by blast
    with that(2) show ?thesis by (auto simp add: level3Diagram_def intro: componentElements_type)
  qed
  from a b in1 c show ?thesis by (simp add: isEndpoint_iff)
qed

theorem external_system_inclusion_witness:
  "buildAll asciiToLowerCase sample_response [login_req] = Inr [sample_level1, sample_level2, sample_level3] \<and>
   externalElement (plain_external ''stripe'') \<in> set (diag_elements sample_level2) \<and>
   externalElement (plain_external ''smtp'') \<notin> set (diag_elements sample_level2) \<and>
   externalElement (plain_external ''smtp'') \<in> set (diag_elements sample_level1)"
proof -
  let ?rels = "[plain_rel ''shop'' ''auth'' ''Checks session'', plain_rel ''shop'' ''stripe'' ''Charges'']"
  have ctx: "level1_context sample_response = Some (the (level1_context sample_response))"
    by code_simp
  have exts: "ctx_external_systems (the (level1_context sample_response)) =
      Some [plain_external ''stripe'', plain_external ''smtp'']"
    by code_simp
  have rels: "level2_relationships sample_response = Some ?rels"
    by code_simp
  have stripe: "plain_external ''stripe'' \<in> set [plain_external ''stripe'', plain_external ''smtp'']"
    and smtp: "plain_external ''smtp'' \<in> set [plain_external ''stripe'', plain_external ''smtp'']"
    by simp_all
  have used: "\<exists>r\<in>set ?rels. rel_from r = ext_id (plain_external ''stripe'') \<or>
      rel_to r = ext_id (plain_external ''stripe'')"
    by code_simp
  have unused: "\<not> (\<exists>r\<in>set ?rels. rel_from r = ext_id (plain_external ''smtp'') \<or>
      rel_to r = ext_id (plain_external ''smtp''))"
    by code_simp
  note t1 = external_system_inclusion [OF sample_run ctx exts rels stripe]
  note t2 = external_system_inclusion [OF sample_run ctx exts rels smtp]
  have a: "externalElement (plain_external ''stripe'') \<in> set (diag_elements sample_level2)"
    unfolding t1 [THEN conjunct1] by (rule used)
  have b: "externalElement (plain_external ''smtp'') \<notin> set (diag_elements sample_level2)"
    unfolding t2 [THEN conjunct1] by (rule unused)
  have c: "externalElement (plain_external ''smtp'') \<in> set (diag_elements sample_level1)"
    by (rule t2 [THEN conjunct2, THEN conjunct2, THEN conjunct1])
  from sample_run a b c show ?thesis by (intro conjI)
qed

subsection \<open>Level-3 diagrams and declared containers\<close>

text \<open>
  C10. The level-3 diagrams of a run are, in the order of the keys of the component
  object, one for each key that has at least one component and is the id of a declared
  container, with that key as parent. A key that is no declared container, or has no
  component, gives no diagram; so every level-3 diagram has a declared container as parent.
\<close>

theorem component_diagrams_only_for_declared_containers:
  assumes "buildLevel3Diagrams toLowerCase arch reqs = Inr ds" and "level3_components arch = Some comps"
  shows "map diag_parentId ds =
           map Some (filter (\<lambda>k. hasComponents comps k \<and> k \<in> set (declaredContainerIds arch))
                       (object_keys comps)) \<and>
         list_all (\<lambda>d. \<exists>k. diag_parentId d = Some k \<and> k \<in> set (declaredContainerIds arch) \<and>
                     k \<in> set (object_keys comps) \<and> hasComponents comps k) ds"
proof -
  from assms obtain pushed where
    pushed: "list_all2 (\<lambda>k p. level3ForContainer toLowerCase arch reqs comps k = Inr p) (object_keys comps) pushed"
    and ds: "ds = concat pushed"
    by (auto elim: buildLevel3Diagrams_InrE)
  have eq: "map diag_parentId ds =
           map Some (filter (\<lambda>k. hasComponents comps k \<and> k \<in> set (declaredContainerIds arch))
                       (object_keys comps))"
    unfolding ds by (rule pushed_parents [OF pushed]) (rule level3ForContainer_parent)
  have "diag_parentId d \<in> set (map diag_parentId ds)" if "d \<in> set ds" for d
    using that by simp
  then have "\<exists>k. diag_parentId d = Some k \<and> k \<in> set (declaredContainerIds arch) \<and>
                     k \<in> set (object_keys comps) \<and> hasComponents comps k" if "d \<in> set ds" for d
    unfolding eq using that by fastforce
  with eq show ?thesis by (simp add: list_all_iff)
qed

theorem component_diagrams_only_for_declared_containers_witness:
  "buildLevel3Diagrams asciiToLowerCase sample_response [login_req] = Inr [sample_level3] \<and>
   map diag_parentId [sample_level3] = [Some ''auth''] \<and>
   set (declaredContainerIds sample_response) = {''auth'', ''shop''} \<and>
   hasComponents (the (level3_components sample_response)) ''ghost''"
proof -
  have comps: "level3_components sample_response = Some (the (level3_components sample_response))"
    by code_simp
  have run: "buildLevel3Diagrams asciiToLowerCase sample_response [login_req] = Inr [sample_level3]"
    by code_simp
  have "filter (\<lambda>k. hasComponents (the (level3_components sample_response)) k \<and>
                   k \<in> set (declaredContainerIds sample_response))
          (object_keys (the (level3_components sample_response))) = [''auth'']"
    by code_simp
  with component_diagrams_only_for_declared_containers [OF run comps]
  have "map diag_parentId [sample_level3] = [Some ''auth'']" by simp
  moreover have "set (declaredContainerIds sample_response) = {''auth'', ''shop''}"
    by code_simp
  moreover have "hasComponents (the (level3_components sample_response)) ''ghost''"
    by code_simp
  ultimately show ?thesis using run by simp
qed

end
